theory Spec2Isabelle
  imports Complex_Main "HOL-Library.Sublist"
begin

section \<open>IT asset manager: the persistence, validation and credential layer of app.py\<close>

text \<open>
  Python strings are modelled as \<^typ>\<open>string\<close>, read as the UTF-8 bytes of the text:
  equality, concatenation, emptiness and substring search agree with Python's on such
  sequences.  What Python, pandas and hashlib compute outside app.py (the SHA-256 digest,
  case folding, whitespace stripping, number and date parsing and printing) is not code of this
  program; it enters the model through the record \<open>pylib\<close> below, and every function
  of app.py that calls the library takes that record as its first argument.
\<close>

subsection \<open>hexdigest\<close>

text \<open>Two lower-case hexadecimal digits for each byte of a digest.\<close>

definition hexdigit :: "nat \<Rightarrow> char" where
  "hexdigit n = ''0123456789abcdef'' ! (n mod 16)"

definition hexdigest :: "char list \<Rightarrow> string" where
  "hexdigest bs = concat (map (\<lambda>c. [hexdigit (of_char c div 16), hexdigit (of_char c mod 16)]) bs)"

subsection \<open>Values, errors and the files on disk\<close>

datatype py_error =
  TypeError | KeyError | ValueError | OSError
  | FileNotFoundError | EmptyDataError | ParserError | JSONDecodeError

text \<open>
  A JSON document as \<open>json.load\<close> returns it.  Numbers are the integers; an object is the
  list of its members in file order, with distinct keys.
\<close>

datatype json =
  JNull | JBool bool | JNum int | JStr string | JArr "json list" | JObj "(string \<times> json) list"

text \<open>The state of users.json: not there, not parsable as JSON, or a document.\<close>

datatype users_file_state = Absent | Corrupt | Doc json

text \<open>
  The fifteen columns of assets.csv, in the order \<open>init_storage\<close> writes them.
\<close>

datatype col =
  Asset_ID | Asset_Name | Category | Brand | Model | Serial_No | Status | Assigned_To
  | Purchase_Date | Warranty_Expiry | Location | Cost | Notes | Created_Date | Last_Updated

definition columns :: "col list" where
  "columns = [Asset_ID, Asset_Name, Category, Brand, Model, Serial_No, Status, Assigned_To,
              Purchase_Date, Warranty_Expiry, Location, Cost, Notes, Created_Date, Last_Updated]"

definition date_cols :: "col list" where
  "date_cols = [Purchase_Date, Warranty_Expiry, Created_Date, Last_Updated]"

text \<open>
  A date is its day number (days since 1970-01-01).  \<open>TS\<close> is a \<open>pandas.Timestamp\<close>, kept
  at day resolution, which is all the program looks at (comparison with a midnight
  threshold, and \<open>%Y-%m-%d\<close>); \<open>D\<close> is a \<open>datetime.date\<close>, as the date widgets of the form
  and \<open>date.today()\<close> return it.  A float64 is the rational number it denotes; \<open>NaN\<close> and
  \<open>NaT\<close> are the missing values.
\<close>

type_synonym date = int

datatype cell = S string | I int | F rat | B bool | TS date | D date | NaN | NaT

type_synonym row = "col \<Rightarrow> cell"

text \<open>
  \<open>No_Columns\<close> is \<open>pd.DataFrame()\<close>, the frame \<open>load_assets\<close> returns when reading fails;
  \<open>Frame rows\<close> is a frame with the fifteen columns.
\<close>

datatype dataframe = No_Columns | Frame "row list"

text \<open>
  The state of assets.csv: not there, of size zero, without a header that can be parsed,
  or a header of the fifteen columns followed by rows of text fields.
\<close>

datatype csv_file = Missing | Blank | Malformed | Table "(col \<Rightarrow> string) list"

datatype log_entry =
  Failed_to_load_users py_error
  | Failed_to_save_users py_error
  | Failed_to_load_assets py_error
  | Save_error py_error
  | Saved nat

text \<open>
  Everything the functions read and write besides their arguments: the two files, the
  \<open>st.cache_data\<close> entry of \<open>load_assets\<close>, the logger's output and the \<open>st.error\<close> banners of
  \<open>save_assets\<close>.  The expiry of a cache entry after its ttl is not modelled.
\<close>

record world =
  users_file :: users_file_state
  assets_file :: csv_file
  cache :: "dataframe option"
  log :: "log_entry list"
  screen :: "py_error list"

text \<open>
  What can go wrong when a file is opened for writing and written: nothing, the open
  fails (the file is left as it was), or the write stops after some rows.
\<close>

datatype io_fault = No_Fault | Open_Fails | Write_Fails nat

datatype parsed = Stamp date | Null | Bad

text \<open>
  The library functions the program relies on.  \<open>sha256\<close> is the digest of
  \<open>hashlib.sha256\<close>, from bytes to bytes.  \<open>parse_int\<close> and \<open>parse_float\<close> are the
  recognisers \<open>read_csv\<close> infers column types with, \<open>float_of_str\<close> is \<open>float(s)\<close>,
  \<open>float_of_int\<close> is the float64 an int64 is converted to (the nearest one),
  \<open>repr_float\<close> is how \<open>to_csv\<close> prints a float, \<open>parse_datetime\<close> is \<open>pd.to_datetime\<close> on one
  string (\<open>Null\<close> for a null-like string, \<open>Bad\<close> for one it rejects), \<open>strftime\<close> prints a
  date as \<open>%Y-%m-%d\<close>, \<open>astype_str\<close> is \<open>str\<close> of a value.
\<close>

record pylib =
  sha256 :: "string \<Rightarrow> string"
  str_strip :: "string \<Rightarrow> string"
  str_lower :: "string \<Rightarrow> string"
  parse_int :: "string \<Rightarrow> int option"
  parse_float :: "string \<Rightarrow> rat option"
  float_of_str :: "string \<Rightarrow> rat option"
  float_of_int :: "int \<Rightarrow> rat"
  repr_float :: "rat \<Rightarrow> string"
  parse_datetime :: "string \<Rightarrow> parsed"
  strftime :: "date \<Rightarrow> string"
  astype_str :: "cell \<Rightarrow> string"

subsection \<open>Credential store: hash_password, load_users, save_users, the login check\<close>

definition hash_password :: "pylib \<Rightarrow> string \<Rightarrow> string" where
  "hash_password py password = hexdigest (sha256 py (''itsm_salt_'' @ password))"

text \<open>A Python dict with JSON values as keys and values, in insertion order.\<close>

type_synonym pydict = "(json \<times> json) list"

fun hashable :: "json \<Rightarrow> bool" where
  "hashable (JArr _) = False"
| "hashable (JObj _) = False"
| "hashable _ = True"

text \<open>Key equality: \<open>True == 1\<close> and \<open>False == 0\<close> in Python.\<close>

fun key_norm :: "json \<Rightarrow> json" where
  "key_norm (JBool b) = JNum (if b then 1 else 0)"
| "key_norm k = k"

fun dict_get :: "pydict \<Rightarrow> json \<Rightarrow> json option" where
  "dict_get [] k = None"
| "dict_get ((k', v) # d) k = (if key_norm k' = key_norm k then Some v else dict_get d k)"

fun dict_set :: "pydict \<Rightarrow> json \<Rightarrow> json \<Rightarrow> pydict" where
  "dict_set [] k v = [(k, v)]"
| "dict_set ((k', v') # d) k v =
     (if key_norm k' = key_norm k then (k', v) # d else (k', v') # dict_set d k v)"

text \<open>\<open>x[key]\<close> with a string key.\<close>

fun getitem :: "json \<Rightarrow> string \<Rightarrow> py_error + json" where
  "getitem (JObj kvs) k = (case map_of kvs k of None \<Rightarrow> Inl KeyError | Some v \<Rightarrow> Inr v)"
| "getitem _ k = Inl TypeError"

text \<open>\<open>for user in users_data\<close>: a dict yields its keys, a string its characters.\<close>

fun iterate :: "json \<Rightarrow> py_error + json list" where
  "iterate (JArr xs) = Inr xs"
| "iterate (JObj kvs) = Inr (map (\<lambda>kv. JStr (fst kv)) kvs)"
| "iterate (JStr s) = Inr (map (\<lambda>c. JStr [c]) s)"
| "iterate _ = Inl TypeError"

text \<open>\<open>{user['username']: user['password_hash'] for user in users_data}\<close>, one entry at a time.\<close>

fun comprehension :: "json list \<Rightarrow> pydict \<Rightarrow> py_error + pydict" where
  "comprehension [] d = Inr d"
| "comprehension (user # rest) d =
     (case getitem user ''username'' of
        Inl e \<Rightarrow> Inl e
      | Inr k \<Rightarrow>
          (case getitem user ''password_hash'' of
             Inl e \<Rightarrow> Inl e
           | Inr v \<Rightarrow> if hashable k then comprehension rest (dict_set d k v) else Inl TypeError))"

definition default_users :: "pylib \<Rightarrow> pydict" where
  "default_users py = [(JStr ''admin'', JStr (hash_password py ''Admin@2024''))]"

definition load_users :: "pylib \<Rightarrow> world \<Rightarrow> pydict \<times> world" where
  "load_users py w =
     (case users_file w of
        Absent \<Rightarrow> (default_users py, w)
      | Corrupt \<Rightarrow> (default_users py, w\<lparr>log := log w @ [Failed_to_load_users JSONDecodeError]\<rparr>)
      | Doc users_data \<Rightarrow>
          (case iterate users_data of
             Inl e \<Rightarrow> (default_users py, w\<lparr>log := log w @ [Failed_to_load_users e]\<rparr>)
           | Inr us \<Rightarrow>
               (case comprehension us [] of
                  Inl e \<Rightarrow> (default_users py, w\<lparr>log := log w @ [Failed_to_load_users e]\<rparr>)
                | Inr d \<Rightarrow> (d, w))))"

text \<open>
  \<open>json.dump(list(users.values()), f)\<close>: only the values of the dict reach the file.
  A write that stops half way leaves text that is not JSON.
\<close>

definition save_users :: "io_fault \<Rightarrow> pydict \<Rightarrow> world \<Rightarrow> world" where
  "save_users fault users w =
     (case fault of
        No_Fault \<Rightarrow> w\<lparr>users_file := Doc (JArr (map snd users))\<rparr>
      | Open_Fails \<Rightarrow> w\<lparr>log := log w @ [Failed_to_save_users OSError]\<rparr>
      | Write_Fails n \<Rightarrow>
          w\<lparr>users_file := Corrupt, log := log w @ [Failed_to_save_users OSError]\<rparr>)"

text \<open>The check of \<open>render_login_page\<close> when the form is submitted (lines 156-157).\<close>

definition render_login_page :: "pylib \<Rightarrow> string \<Rightarrow> string \<Rightarrow> world \<Rightarrow> bool \<times> world" where
  "render_login_page py username password w =
     (case load_users py w of
        (users, w') \<Rightarrow>
          ((case dict_get users (JStr username) of
              None \<Rightarrow> False
            | Some v \<Rightarrow> v = JStr (hash_password py password)), w'))"

subsection \<open>Record store: init_storage, load_assets, save_assets\<close>

definition init_storage :: "world \<Rightarrow> world" where
  "init_storage w =
     (let w1 = (if assets_file w = Missing then w\<lparr>assets_file := Blank\<rparr> else w)
      in if assets_file w1 = Blank then w1\<lparr>assets_file := Table []\<rparr> else w1)"

text \<open>
  \<open>pd.read_csv\<close> with its defaults.  A field that is one of the default NA strings is a
  missing value.  The type of a column is inferred from all its fields: int64 when every
  field is an integer, float64 when every field that is not missing is a number, bool
  when every field is a truth value, and otherwise the fields stay strings.
\<close>

definition na_values :: "string list" where
  "na_values = ['''', ''#N/A'', ''#N/A N/A'', ''#NA'', ''-1.#IND'', ''-1.#QNAN'', ''-NaN'', ''-nan'',
                ''1.#IND'', ''1.#QNAN'', ''<NA>'', ''N/A'', ''NA'', ''NULL'', ''NaN'', ''None'', ''n/a'',
                ''nan'', ''null'']"

definition is_na :: "string \<Rightarrow> bool" where
  "is_na s = (s \<in> set na_values)"

definition parse_bool :: "string \<Rightarrow> bool option" where
  "parse_bool s =
     (if s \<in> set [''True'', ''TRUE'', ''true''] then Some True
      else if s \<in> set [''False'', ''FALSE'', ''false''] then Some False
      else None)"

datatype dtype = Int64 | Float64 | Bool | Bool_Object | Object

definition infer_dtype :: "pylib \<Rightarrow> string list \<Rightarrow> dtype" where
  "infer_dtype py xs =
     (let vals = filter (\<lambda>s. \<not> is_na s) xs in
      if xs = [] then Object
      else if vals = xs \<and> list_all (\<lambda>s. parse_int py s \<noteq> None) vals then Int64
      else if list_all (\<lambda>s. parse_float py s \<noteq> None) vals then Float64
      else if list_all (\<lambda>s. parse_bool s \<noteq> None) vals then (if vals = xs then Bool else Bool_Object)
      else Object)"

definition read_cell :: "pylib \<Rightarrow> dtype \<Rightarrow> string \<Rightarrow> cell" where
  "read_cell py dt s =
     (if is_na s then NaN
      else case dt of
        Int64 \<Rightarrow> (case parse_int py s of Some n \<Rightarrow> I n | None \<Rightarrow> S s)
      | Float64 \<Rightarrow> (case parse_float py s of Some x \<Rightarrow> F x | None \<Rightarrow> S s)
      | Bool \<Rightarrow> (case parse_bool s of Some b \<Rightarrow> B b | None \<Rightarrow> S s)
      | Bool_Object \<Rightarrow> (case parse_bool s of Some b \<Rightarrow> B b | None \<Rightarrow> S s)
      | Object \<Rightarrow> S s)"

definition read_csv :: "pylib \<Rightarrow> csv_file \<Rightarrow> py_error + row list" where
  "read_csv py file =
     (case file of
        Missing \<Rightarrow> Inl FileNotFoundError
      | Blank \<Rightarrow> Inl EmptyDataError
      | Malformed \<Rightarrow> Inl ParserError
      | Table trs \<Rightarrow>
          Inr (map (\<lambda>tr. \<lambda>c. read_cell py (infer_dtype py (map (\<lambda>t. t c) trs)) (tr c)) trs))"

text \<open>
  \<open>pd.to_datetime\<close> on one value.  A number counts nanoseconds since the epoch.
\<close>

definition ns_per_day :: int where
  "ns_per_day = 86400000000000"

definition to_datetime :: "pylib \<Rightarrow> cell \<Rightarrow> parsed" where
  "to_datetime py c =
     (case c of
        S s \<Rightarrow> parse_datetime py s
      | I n \<Rightarrow> Stamp (n div ns_per_day)
      | F x \<Rightarrow> Stamp (\<lfloor>x\<rfloor> div ns_per_day)
      | B b \<Rightarrow> Bad
      | TS d \<Rightarrow> Stamp d
      | D d \<Rightarrow> Stamp d
      | NaN \<Rightarrow> Null
      | NaT \<Rightarrow> Null)"

text \<open>\<open>df[col] = pd.to_datetime(df[col], errors='coerce')\<close> for the four date columns.\<close>

definition coerce_dates :: "pylib \<Rightarrow> row \<Rightarrow> row" where
  "coerce_dates py r =
     (\<lambda>c. if c \<in> set date_cols
          then (case to_datetime py (r c) of Stamp d \<Rightarrow> TS d | Null \<Rightarrow> NaT | Bad \<Rightarrow> NaT)
          else r c)"

text \<open>
  \<open>df.fillna("")\<close>, called after the four date columns have become datetime64 columns:
  such a column takes the empty string as a missing timestamp and is left as it is, so
  a missing date stays \<open>NaT\<close>; in every other column a missing value becomes the empty
  string.
\<close>

definition fillna :: "row \<Rightarrow> row" where
  "fillna r = (\<lambda>c. if c \<in> set date_cols then r c
                   else (case r c of NaN \<Rightarrow> S '''' | x \<Rightarrow> x))"

text \<open>
  \<open>df.astype({"Cost": "float64"}, errors='ignore')\<close>: the column is converted as a whole;
  when one value cannot be converted the exception is suppressed and the frame comes
  back as it was.
\<close>

definition to_float :: "pylib \<Rightarrow> cell \<Rightarrow> cell option" where
  "to_float py c =
     (case c of
        S s \<Rightarrow> map_option F (float_of_str py s)
      | I n \<Rightarrow> Some (F (float_of_int py n))
      | F x \<Rightarrow> Some (F x)
      | B b \<Rightarrow> Some (F (if b then 1 else 0))
      | TS d \<Rightarrow> None
      | D d \<Rightarrow> None
      | NaN \<Rightarrow> Some NaN
      | NaT \<Rightarrow> None)"

definition astype_cost :: "pylib \<Rightarrow> row list \<Rightarrow> row list" where
  "astype_cost py rows =
     (if list_all (\<lambda>r. to_float py (r Cost) \<noteq> None) rows
      then map (\<lambda>r. r(Cost := (case to_float py (r Cost) of Some v \<Rightarrow> v | None \<Rightarrow> r Cost))) rows
      else rows)"

text \<open>The body of \<open>load_assets\<close>, and \<open>load_assets\<close> behind its cache.\<close>

definition load_assets_body :: "pylib \<Rightarrow> world \<Rightarrow> dataframe \<times> world" where
  "load_assets_body py w =
     (case read_csv py (assets_file w) of
        Inl e \<Rightarrow> (No_Columns, w\<lparr>log := log w @ [Failed_to_load_assets e]\<rparr>)
      | Inr rows \<Rightarrow> (Frame (astype_cost py (map (\<lambda>r. fillna (coerce_dates py r)) rows)), w))"

definition load_assets :: "pylib \<Rightarrow> world \<Rightarrow> dataframe \<times> world" where
  "load_assets py w =
     (case cache w of
        Some df \<Rightarrow> (df, w)
      | None \<Rightarrow> (case load_assets_body py w of (df, w') \<Rightarrow> (df, w'\<lparr>cache := Some df\<rparr>)))"

text \<open>
  \<open>save_assets\<close>.  In each date column the values that are not missing are converted with
  \<open>pd.to_datetime\<close> (which raises on a value it rejects) and printed as \<open>%Y-%m-%d\<close>; a
  null-like value, such as an empty string, prints as missing.
\<close>

definition isna :: "cell \<Rightarrow> bool" where
  "isna c = (c = NaN \<or> c = NaT)"

definition format_date :: "pylib \<Rightarrow> cell \<Rightarrow> py_error + cell" where
  "format_date py c =
     (if isna c then Inr c
      else case to_datetime py c of
        Stamp d \<Rightarrow> Inr (S (strftime py d))
      | Null \<Rightarrow> Inr NaN
      | Bad \<Rightarrow> Inl ValueError)"

definition format_dates :: "pylib \<Rightarrow> row list \<Rightarrow> py_error + row list" where
  "format_dates py rows =
     (if list_all (\<lambda>r. list_all (\<lambda>c. format_date py (r c) \<noteq> Inl ValueError) date_cols) rows
      then Inr (map (\<lambda>r. \<lambda>c. if c \<in> set date_cols
                                then (case format_date py (r c) of Inr v \<Rightarrow> v | Inl e \<Rightarrow> r c)
                                else r c) rows)
      else Inl ValueError)"

function show_nat :: "nat \<Rightarrow> string" where
  "show_nat n = (if n < 10 then [char_of (48 + n)] else show_nat (n div 10) @ [char_of (48 + n mod 10)])"
  by pat_completeness auto
termination
  by (relation "measure id") auto

definition show_int :: "int \<Rightarrow> string" where
  "show_int i = (if i < 0 then CHR ''-'' # show_nat (nat (- i)) else show_nat (nat i))"

text \<open>One field of the file as \<open>to_csv\<close> prints it; a missing value prints as nothing.\<close>

definition cell_text :: "pylib \<Rightarrow> cell \<Rightarrow> string" where
  "cell_text py c =
     (case c of
        S s \<Rightarrow> s
      | I n \<Rightarrow> show_int n
      | F x \<Rightarrow> repr_float py x
      | B b \<Rightarrow> (if b then ''True'' else ''False'')
      | TS d \<Rightarrow> strftime py d
      | D d \<Rightarrow> strftime py d
      | NaN \<Rightarrow> ''''
      | NaT \<Rightarrow> '''')"

text \<open>
  \<open>df.to_csv(config.ASSETS_FILE, index=False)\<close>: the file itself is opened for writing,
  which empties it, and the header and the rows are written to it one after the other.
  The result is the exception raised, if any, and what is on disk afterwards.  A frame
  without columns leaves a file without a header.
\<close>

definition to_csv :: "pylib \<Rightarrow> io_fault \<Rightarrow> dataframe \<Rightarrow> csv_file \<Rightarrow> py_error option \<times> csv_file" where
  "to_csv py fault df old =
     (case fault of
        Open_Fails \<Rightarrow> (Some OSError, old)
      | Write_Fails n \<Rightarrow>
          (Some OSError,
           (case df of
              No_Columns \<Rightarrow> Blank
            | Frame rows \<Rightarrow> Table (take n (map (\<lambda>r. \<lambda>c. cell_text py (r c)) rows))))
      | No_Fault \<Rightarrow>
          (None,
           (case df of
              No_Columns \<Rightarrow> Malformed
            | Frame rows \<Rightarrow> Table (map (\<lambda>r. \<lambda>c. cell_text py (r c)) rows))))"

definition df_len :: "dataframe \<Rightarrow> nat" where
  "df_len df = (case df of No_Columns \<Rightarrow> 0 | Frame rows \<Rightarrow> length rows)"

text \<open>The \<open>except\<close> branch of \<open>save_assets\<close>: a banner and a log line, nothing else.\<close>

definition save_failed :: "py_error \<Rightarrow> world \<Rightarrow> world" where
  "save_failed e w = w\<lparr>log := log w @ [Save_error e], screen := screen w @ [e]\<rparr>"

definition save_assets :: "pylib \<Rightarrow> io_fault \<Rightarrow> dataframe \<Rightarrow> world \<Rightarrow> world" where
  "save_assets py fault df w =
     (case (case df of
              No_Columns \<Rightarrow> Inr No_Columns
            | Frame rows \<Rightarrow> map_sum id Frame (format_dates py rows)) of
        Inl e \<Rightarrow> save_failed e w
      | Inr df_copy \<Rightarrow>
          (case to_csv py fault df_copy (assets_file w) of
             (Some e, file) \<Rightarrow> save_failed e (w\<lparr>assets_file := file\<rparr>)
           | (None, file) \<Rightarrow>
               w\<lparr>assets_file := file, cache := None, log := log w @ [Saved (df_len df)]\<rparr>))"

subsection \<open>Registration: the submitted form of render_add_asset\<close>

text \<open>The values of the form's widgets when it is submitted.\<close>

record form =
  f_asset_id :: string
  f_name :: string
  f_category :: string
  f_brand :: string
  f_model :: string
  f_serial :: string
  f_status :: string
  f_assignee :: string
  f_location :: string
  f_cost :: rat
  f_purchase :: date
  f_warranty :: date
  f_notes :: string

definition msg_required :: string where
  "msg_required = ''Required fields missing''"

definition msg_duplicate :: string where
  "msg_duplicate = ''Asset ID already exists''"

definition msg_warranty :: string where
  "msg_warranty = ''Warranty must exceed purchase date''"

text \<open>
  Lines 279-285: the three checks, each appending its message to \<open>errors\<close>.  \<open>all([...])\<close>
  holds when none of the four strings is empty; \<open>x in df["Asset ID"].values\<close> holds when
  some value of the column is the string \<open>x\<close>.
\<close>

definition required_present :: "pylib \<Rightarrow> form \<Rightarrow> bool" where
  "required_present py f =
     list_all (\<lambda>s. s \<noteq> [])
       [str_strip py (f_asset_id f), str_strip py (f_name f), str_strip py (f_brand f), f_category f]"

definition validation_errors :: "pylib \<Rightarrow> form \<Rightarrow> row list \<Rightarrow> string list" where
  "validation_errors py f rows =
     (let errors = [];
          errors = (if \<not> required_present py f then errors @ [msg_required] else errors);
          errors = (if S (str_strip py (f_asset_id f)) \<in> set (map (\<lambda>r. r Asset_ID) rows)
                    then errors @ [msg_duplicate] else errors);
          errors = (if f_warranty f \<le> f_purchase f then errors @ [msg_warranty] else errors)
      in errors)"

text \<open>Lines 291-307: the row of the new asset; \<open>today\<close> is \<open>date.today()\<close>.\<close>

definition new_asset :: "pylib \<Rightarrow> date \<Rightarrow> form \<Rightarrow> row" where
  "new_asset py today f =
     (\<lambda>c. case c of
        Asset_ID \<Rightarrow> S (str_strip py (f_asset_id f))
      | Asset_Name \<Rightarrow> S (str_strip py (f_name f))
      | Category \<Rightarrow> S (f_category f)
      | Brand \<Rightarrow> S (str_strip py (f_brand f))
      | Model \<Rightarrow> S (str_strip py (f_model f))
      | Serial_No \<Rightarrow> S (str_strip py (f_serial f))
      | Status \<Rightarrow> S (f_status f)
      | Assigned_To \<Rightarrow> S (str_strip py (f_assignee f))
      | Purchase_Date \<Rightarrow> D (f_purchase f)
      | Warranty_Expiry \<Rightarrow> D (f_warranty f)
      | Location \<Rightarrow> S (str_strip py (f_location f))
      | Cost \<Rightarrow> F (f_cost f)
      | Notes \<Rightarrow> S (str_strip py (f_notes f))
      | Created_Date \<Rightarrow> D today
      | Last_Updated \<Rightarrow> D today)"

text \<open>
  The outcome of a submission: the messages shown with \<open>st.error\<close>, or the frame that was
  handed to \<open>save_assets\<close>.  On a frame without columns \<open>df["Asset ID"]\<close> raises.
\<close>

datatype outcome = Rejected "string list" | Registered dataframe

definition render_add_asset ::
  "pylib \<Rightarrow> date \<Rightarrow> io_fault \<Rightarrow> form \<Rightarrow> dataframe \<Rightarrow> world \<Rightarrow> py_error + outcome \<times> world" where
  "render_add_asset py today fault f df w =
     (case df of
        No_Columns \<Rightarrow> Inl KeyError
      | Frame rows \<Rightarrow>
          (let errors = validation_errors py f rows in
           if errors \<noteq> [] then Inr (Rejected errors, w)
           else (let updated_df = Frame (rows @ [new_asset py today f])
                 in Inr (Registered updated_df, save_assets py fault updated_df w))))"

subsection \<open>Dashboard metrics: render_dashboard\<close>

record metrics =
  total :: nat
  assigned :: nat
  available :: nat
  repair :: nat
  expiring :: nat

text \<open>
  \<open>df["Warranty Expiry"] < threshold_date\<close>, one value at a time: a Timestamp compares, a
  missing timestamp gives False, and anything else (a \<open>datetime.date\<close>, a string, a number)
  cannot be compared with a Timestamp.
\<close>

definition lt_timestamp :: "cell \<Rightarrow> date \<Rightarrow> py_error + bool" where
  "lt_timestamp c threshold =
     (case c of
        TS d \<Rightarrow> Inr (d < threshold)
      | NaT \<Rightarrow> Inr False
      | _ \<Rightarrow> Inl TypeError)"

definition count_status :: "row list \<Rightarrow> string \<Rightarrow> nat" where
  "count_status rows s = length (filter (\<lambda>r. r Status = S s) rows)"

text \<open>
  Lines 218-219: the rows whose warranty is before the threshold, then \<open>dropna\<close> on the
  same column, then their number.
\<close>

definition expiring_soon :: "date \<Rightarrow> row list \<Rightarrow> py_error + nat" where
  "expiring_soon today rows =
     (let threshold_date = today + 90 in
      if list_all (\<lambda>r. lt_timestamp (r Warranty_Expiry) threshold_date \<noteq> Inl TypeError) rows
      then Inr (length (filter (\<lambda>r. \<not> isna (r Warranty_Expiry))
                  (filter (\<lambda>r. lt_timestamp (r Warranty_Expiry) threshold_date = Inr True) rows)))
      else Inl TypeError)"

text \<open>\<open>None\<close> is the early return on an empty frame, where no metric is shown.\<close>

definition render_dashboard :: "date \<Rightarrow> dataframe \<Rightarrow> py_error + metrics option" where
  "render_dashboard today df =
     (case df of
        No_Columns \<Rightarrow> Inr None
      | Frame rows \<Rightarrow>
          if rows = [] then Inr None
          else (case expiring_soon today rows of
                  Inl e \<Rightarrow> Inl e
                | Inr n \<Rightarrow>
                    Inr (Some \<lparr>total = length rows,
                               assigned = count_status rows ''Assigned'',
                               available = count_status rows ''Available'',
                               repair = count_status rows ''Repair'',
                               expiring = n\<rparr>)))"

subsection \<open>Search and status filter: render_manage_assets\<close>

text \<open>\<open>needle in haystack\<close> on strings.\<close>

fun contains :: "string \<Rightarrow> string \<Rightarrow> bool" where
  "contains [] needle = (needle = [])"
| "contains (c # cs) needle = (prefix needle (c # cs) \<or> contains cs needle)"

text \<open>\<open>Series.str.cat(sep=' ')\<close>.\<close>

fun str_cat :: "string list \<Rightarrow> string" where
  "str_cat [] = []"
| "str_cat [s] = s"
| "str_cat (s # t # ss) = s @ '' '' @ str_cat (t # ss)"

text \<open>
  \<open>row.str.lower().str.cat(sep=' ')\<close> on a row of \<open>df.astype(str)\<close>: the fifteen values as
  text, each in lower case, joined by single spaces.
\<close>

definition row_text :: "pylib \<Rightarrow> row \<Rightarrow> string" where
  "row_text py r = str_cat (map (\<lambda>c. str_lower py (astype_str py (r c))) columns)"

definition render_manage_assets ::
  "pylib \<Rightarrow> dataframe \<Rightarrow> string \<Rightarrow> string \<Rightarrow> py_error + dataframe" where
  "render_manage_assets py df search status_filter =
     (case df of
        No_Columns \<Rightarrow> (if status_filter \<noteq> ''All'' then Inl KeyError else Inr No_Columns)
      | Frame rows \<Rightarrow>
          (let filtered = rows;
               filtered = (if search \<noteq> []
                           then filter (\<lambda>r. contains (row_text py r) (str_lower py search)) filtered
                           else filtered);
               filtered = (if status_filter \<noteq> ''All''
                           then filter (\<lambda>r. r Status = S status_filter) filtered
                           else filtered)
           in Inr (Frame filtered)))"

subsection \<open>main: a page is handed the frame load_assets returns\<close>

text \<open>
  \<open>main\<close> with the "Add Asset" page selected and the form submitted: \<open>init_storage()\<close>,
  \<open>df = load_assets()\<close>, then \<open>render_add_asset(df)\<close>.
\<close>

definition main_add_asset ::
  "pylib \<Rightarrow> date \<Rightarrow> io_fault \<Rightarrow> form \<Rightarrow> world \<Rightarrow> py_error + outcome \<times> world" where
  "main_add_asset py today fault f w =
     (case load_assets py (init_storage w) of (df, w1) \<Rightarrow> render_add_asset py today fault f df w1)"

subsection \<open>Observations and abbreviations used in the statements\<close>

text \<open>The values of a column of a frame, and the fields of a column of assets.csv.\<close>

definition column :: "col \<Rightarrow> dataframe \<Rightarrow> cell list" where
  "column c df = (case df of No_Columns \<Rightarrow> [] | Frame rows \<Rightarrow> map (\<lambda>r. r c) rows)"

definition file_column :: "col \<Rightarrow> world \<Rightarrow> string list" where
  "file_column c w = (case assets_file w of Table trs \<Rightarrow> map (\<lambda>t. t c) trs | _ \<Rightarrow> [])"

text \<open>The world a submission leaves, and whether it registered the asset.\<close>

definition world_after :: "py_error + outcome \<times> world \<Rightarrow> world \<Rightarrow> world" where
  "world_after res w = (case res of Inr (out, w') \<Rightarrow> w' | Inl e \<Rightarrow> w)"

definition registered :: "py_error + outcome \<times> world \<Rightarrow> bool" where
  "registered res = (case res of Inr (Registered df, w') \<Rightarrow> True | _ \<Rightarrow> False)"

text \<open>A value of a date column that \<open>save_assets\<close> can print: a date or a missing value.\<close>

definition date_like :: "cell \<Rightarrow> bool" where
  "date_like c = (case c of TS d \<Rightarrow> True | D d \<Rightarrow> True | NaT \<Rightarrow> True | NaN \<Rightarrow> True | _ \<Rightarrow> False)"

text \<open>The rows \<open>read_csv\<close> returns for a table, and the rows \<open>load_assets\<close> makes of them.\<close>

definition read_rows :: "pylib \<Rightarrow> (col \<Rightarrow> string) list \<Rightarrow> row list" where
  "read_rows py trs = map (\<lambda>tr. \<lambda>c. read_cell py (infer_dtype py (map (\<lambda>t. t c) trs)) (tr c)) trs"

definition loaded :: "pylib \<Rightarrow> (col \<Rightarrow> string) list \<Rightarrow> row list" where
  "loaded py trs = astype_cost py (map (\<lambda>r. fillna (coerce_dates py r)) (read_rows py trs))"

text \<open>
  The values of the Cost column as \<open>read_csv\<close> and \<open>fillna\<close> leave them, before \<open>astype\<close>.
\<close>

definition costs_read :: "pylib \<Rightarrow> (col \<Rightarrow> string) list \<Rightarrow> cell list" where
  "costs_read py trs = map (\<lambda>r. case r Cost of NaN \<Rightarrow> S '''' | x \<Rightarrow> x) (read_rows py trs)"

subsection \<open>A reference library: ASCII text, decimal literals, ISO dates\<close>

text \<open>
  An instance of \<open>pylib\<close> that agrees with Python and pandas on ASCII text, on plain decimal
  literals and on dates written \<open>YYYY-MM-DD\<close>.  The definitions above are run with it on
  concrete inputs.  Its digest is a stand-in of the right length, not SHA-256: nothing
  below depends on the value of a digest.
\<close>

definition is_space :: "char \<Rightarrow> bool" where
  "is_space c = (c \<in> set [CHR '' '', CHR 0x09, CHR 0x0A, CHR 0x0B, CHR 0x0C, CHR 0x0D])"

definition ref_digest :: "string \<Rightarrow> string" where
  "ref_digest m = take 32 (m @ replicate 32 (CHR 0x00))"

definition ref_strip :: "string \<Rightarrow> string" where
  "ref_strip s = rev (dropWhile is_space (rev (dropWhile is_space s)))"

definition lower_char :: "char \<Rightarrow> char" where
  "lower_char c = (let n = (of_char c :: nat) in if 65 \<le> n \<and> n \<le> 90 then char_of (n + 32) else c)"

definition ref_lower :: "string \<Rightarrow> string" where
  "ref_lower s = map lower_char s"

definition is_digit :: "char \<Rightarrow> bool" where
  "is_digit c = (let n = (of_char c :: nat) in 48 \<le> n \<and> n \<le> 57)"

definition digits_value :: "string \<Rightarrow> nat" where
  "digits_value s = foldl (\<lambda>a c. 10 * a + (of_char c - 48)) 0 s"

definition ref_parse_nat :: "string \<Rightarrow> nat option" where
  "ref_parse_nat s = (if s \<noteq> [] \<and> list_all is_digit s then Some (digits_value s) else None)"

definition ref_parse_int :: "string \<Rightarrow> int option" where
  "ref_parse_int s =
     (if s \<noteq> [] \<and> hd s = CHR ''-'' then map_option (\<lambda>n. - int n) (ref_parse_nat (tl s))
      else map_option int (ref_parse_nat s))"

definition ref_parse_ufloat :: "string \<Rightarrow> rat option" where
  "ref_parse_ufloat u =
     (let a = takeWhile (\<lambda>c. c \<noteq> CHR ''.'') u; b = drop (length a + 1) u in
      if CHR ''.'' \<notin> set u then map_option of_nat (ref_parse_nat u)
      else (case (ref_parse_nat a, if b = [] then Some 0 else ref_parse_nat b) of
              (Some x, Some y) \<Rightarrow> Some (of_nat x + of_nat y / 10 ^ length b)
            | _ \<Rightarrow> None))"

definition ref_parse_float :: "string \<Rightarrow> rat option" where
  "ref_parse_float s =
     (if s \<noteq> [] \<and> hd s = CHR ''-'' then map_option uminus (ref_parse_ufloat (tl s))
      else ref_parse_ufloat s)"

fun frac_digits :: "nat \<Rightarrow> rat \<Rightarrow> string" where
  "frac_digits 0 x = []"
| "frac_digits (Suc k) x =
     (if x = 0 then []
      else (let d = nat \<lfloor>x * 10\<rfloor> in char_of (48 + d) # frac_digits k (x * 10 - of_nat d)))"

definition ref_repr_float :: "rat \<Rightarrow> string" where
  "ref_repr_float q =
     (let a = \<bar>q\<bar>; n = nat \<lfloor>a\<rfloor>; ds = frac_digits 17 (a - of_nat n) in
      (if q < 0 then ''-'' else []) @ show_nat n @ ''.'' @ (if ds = [] then ''0'' else ds))"

text \<open>The proleptic Gregorian calendar, as day numbers since 1970-01-01.\<close>

definition days_from_civil :: "int \<Rightarrow> int \<Rightarrow> int \<Rightarrow> int" where
  "days_from_civil y m d =
     (let y' = (if m \<le> 2 then y - 1 else y);
          era = y' div 400;
          yoe = y' - era * 400;
          mp = (if m > 2 then m - 3 else m + 9);
          doy = (153 * mp + 2) div 5 + d - 1;
          doe = yoe * 365 + yoe div 4 - yoe div 100 + doy
      in era * 146097 + doe - 719468)"

definition civil_from_days :: "int \<Rightarrow> int \<times> int \<times> int" where
  "civil_from_days z =
     (let z' = z + 719468;
          era = z' div 146097;
          doe = z' - era * 146097;
          yoe = (doe - doe div 1460 + doe div 36524 - doe div 146096) div 365;
          y = yoe + era * 400;
          doy = doe - (365 * yoe + yoe div 4 - yoe div 100);
          mp = (5 * doy + 2) div 153;
          d = doy - (153 * mp + 2) div 5 + 1;
          m = (if mp < 10 then mp + 3 else mp - 9)
      in (if m \<le> 2 then y + 1 else y, m, d))"

definition zero_pad :: "nat \<Rightarrow> string \<Rightarrow> string" where
  "zero_pad k s = replicate (k - length s) CHR ''0'' @ s"

definition ref_strftime :: "date \<Rightarrow> string" where
  "ref_strftime z =
     (case civil_from_days z of
        (y, m, d) \<Rightarrow> zero_pad 4 (show_int y) @ ''-'' @ zero_pad 2 (show_int m) @ ''-'' @ zero_pad 2 (show_int d))"

definition days_in_month :: "int \<Rightarrow> int \<Rightarrow> int" where
  "days_in_month y m =
     (if m = 2 then (if y mod 4 = 0 \<and> (y mod 100 \<noteq> 0 \<or> y mod 400 = 0) then 29 else 28)
      else if m \<in> set [4, 6, 9, 11] then 30 else 31)"

definition ref_parse_datetime :: "string \<Rightarrow> parsed" where
  "ref_parse_datetime s =
     (if s = [] then Null
      else if length s = 10 \<and> s ! 4 = CHR ''-'' \<and> s ! 7 = CHR ''-'' then
        (case (ref_parse_nat (take 4 s), ref_parse_nat (take 2 (drop 5 s)), ref_parse_nat (drop 8 s)) of
           (Some y, Some m, Some d) \<Rightarrow>
             if 1 \<le> m \<and> m \<le> 12 \<and> 1 \<le> d \<and> int d \<le> days_in_month (int y) (int m)
             then Stamp (days_from_civil (int y) (int m) (int d)) else Bad
         | _ \<Rightarrow> Bad)
      else Bad)"

text \<open>The float64 nearest to an integer: 53 significant bits, ties to even.\<close>

function bit_len :: "nat \<Rightarrow> nat" where
  "bit_len n = (if n = 0 then 0 else Suc (bit_len (n div 2)))"
  by pat_completeness auto
termination
  by (relation "measure id") auto

definition ref_float_of_int :: "int \<Rightarrow> rat" where
  "ref_float_of_int n =
     (let a = nat \<bar>n\<bar>;
          e = bit_len a - 53;
          q = a div 2 ^ e;
          r = a mod 2 ^ e;
          q' = (if 2 * r > 2 ^ e \<or> (2 * r = 2 ^ e \<and> odd q) then q + 1 else q)
      in of_int (sgn n * int (q' * 2 ^ e)))"

definition ref_astype_str :: "cell \<Rightarrow> string" where
  "ref_astype_str c =
     (case c of
        S s \<Rightarrow> s
      | I n \<Rightarrow> show_int n
      | F x \<Rightarrow> ref_repr_float x
      | B b \<Rightarrow> (if b then ''True'' else ''False'')
      | TS d \<Rightarrow> ref_strftime d
      | D d \<Rightarrow> ref_strftime d
      | NaN \<Rightarrow> ''nan''
      | NaT \<Rightarrow> ''NaT'')"

definition ref_py :: pylib where
  "ref_py = \<lparr>sha256 = ref_digest, str_strip = ref_strip, str_lower = ref_lower, parse_int = ref_parse_int,
            parse_float = ref_parse_float, float_of_str = ref_parse_float,
            float_of_int = ref_float_of_int,
            repr_float = ref_repr_float, parse_datetime = ref_parse_datetime,
            strftime = ref_strftime, astype_str = ref_astype_str\<rparr>"

subsection \<open>Concrete inputs\<close>

text \<open>
  A form as an operator would fill it in (2024-01-01 is day 19723, 2025-01-01 is day 20089),
  and a world with no credential file, an initialised asset file and an empty cache.
\<close>

definition ex_form :: form where
  "ex_form = \<lparr>f_asset_id = '' LAP001 '', f_name = ''Dell Latitude'', f_category = ''Laptop'',
              f_brand = ''Dell'', f_model = ''5420'', f_serial = ''SN123'', f_status = ''Available'',
              f_assignee = '''', f_location = ''HQ'', f_cost = 1500, f_purchase = 19723,
              f_warranty = 20089, f_notes = ''''\<rparr>"

definition ex_world :: world where
  "ex_world = \<lparr>users_file = Absent, assets_file = Table [], cache = None, log = [], screen = []\<rparr>"

text \<open>
  The same form with the asset id 7, submitted twice through \<open>main\<close>: the world after the
  first submission, and the world after the second.
\<close>

definition ex_form7 :: form where
  "ex_form7 = ex_form\<lparr>f_asset_id := ''7''\<rparr>"

definition ex_w1 :: world where
  "ex_w1 = world_after (main_add_asset ref_py 19800 No_Fault ex_form7 ex_world) ex_world"

definition ex_w2 :: world where
  "ex_w2 = world_after (main_add_asset ref_py 19800 No_Fault ex_form7 ex_w1) ex_w1"

text \<open>
  Three rows of a frame whose dates are missing: a laptop that is available, a server
  that is available, and a laptop that is assigned.
\<close>

definition ex_loaded_row :: row where
  "ex_loaded_row =
     (\<lambda>c. case c of
        Asset_ID \<Rightarrow> S ''LAP001'' | Asset_Name \<Rightarrow> S ''Dell Latitude'' | Category \<Rightarrow> S ''Laptop''
      | Brand \<Rightarrow> S ''Dell'' | Model \<Rightarrow> S ''Latitude 5420'' | Serial_No \<Rightarrow> S ''SN123''
      | Status \<Rightarrow> S ''Available'' | Assigned_To \<Rightarrow> S '''' | Purchase_Date \<Rightarrow> NaT
      | Warranty_Expiry \<Rightarrow> NaT | Location \<Rightarrow> S ''HQ'' | Cost \<Rightarrow> F 1500 | Notes \<Rightarrow> S ''''
      | Created_Date \<Rightarrow> NaT | Last_Updated \<Rightarrow> NaT)"

definition ex_server_row :: row where
  "ex_server_row = ex_loaded_row(Asset_ID := S ''SRV9'', Asset_Name := S ''Rack server'',
                                 Category := S ''Server'', Model := S ''R740'')"

definition ex_assigned_row :: row where
  "ex_assigned_row = ex_loaded_row(Asset_ID := S ''LAP002'', Status := S ''Assigned'')"

text \<open>
  The form with the note "NA", the frame \<open>render_add_asset\<close> builds from it on an empty
  store, and the world after that frame has been saved.
\<close>

definition ex_form_na :: form where
  "ex_form_na = ex_form\<lparr>f_notes := ''NA''\<rparr>"

definition ex_saved_na :: world where
  "ex_saved_na = save_assets ref_py No_Fault (Frame [new_asset ref_py 19800 ex_form_na]) ex_world"

text \<open>
  A row of assets.csv as text, and two files of two rows each: one where the cost of the
  second row is the text abc, one where it is 20.
\<close>

definition ex_text_row :: "col \<Rightarrow> string" where
  "ex_text_row =
     (\<lambda>c. case c of
        Asset_ID \<Rightarrow> ''LAP001'' | Asset_Name \<Rightarrow> ''Dell Latitude'' | Category \<Rightarrow> ''Laptop''
      | Brand \<Rightarrow> ''Dell'' | Model \<Rightarrow> ''Latitude 5420'' | Serial_No \<Rightarrow> ''SN123''
      | Status \<Rightarrow> ''Available'' | Assigned_To \<Rightarrow> '''' | Purchase_Date \<Rightarrow> ''2024-01-01''
      | Warranty_Expiry \<Rightarrow> ''2025-01-01'' | Location \<Rightarrow> ''HQ'' | Cost \<Rightarrow> ''1500.0'' | Notes \<Rightarrow> ''''
      | Created_Date \<Rightarrow> ''2024-01-01'' | Last_Updated \<Rightarrow> ''2024-01-01'')"

definition ex_cost_world :: world where
  "ex_cost_world =
     ex_world\<lparr>assets_file := Table [ex_text_row, ex_text_row(Asset_ID := ''LAP002'', Cost := ''abc'')]\<rparr>"

definition ex_cost_ok_world :: world where
  "ex_cost_ok_world =
     ex_world\<lparr>assets_file := Table [ex_text_row, ex_text_row(Asset_ID := ''LAP002'', Cost := ''20'')]\<rparr>"


subsection \<open>The specification's wording, for comparison\<close>

text \<open>
  The count as the specification words it: the rows whose warranty date lies in the
  half-open interval from today to today + 90 days.
\<close>

definition spec_expiring_soon :: "date \<Rightarrow> row list \<Rightarrow> nat" where
  "spec_expiring_soon today rows =
     length (filter (\<lambda>r. case r Warranty_Expiry of
                           TS d \<Rightarrow> today \<le> d \<and> d < today + 90
                         | D d \<Rightarrow> today \<le> d \<and> d < today + 90
                         | _ \<Rightarrow> False) rows)"

text \<open>
  The filter as the specification words it: the query is searched, without regard to
  case, in the concatenation of the field values of a record.
\<close>

definition spec_row_text :: "pylib \<Rightarrow> row \<Rightarrow> string" where
  "spec_row_text py r = str_lower py (concat (map (\<lambda>c. astype_str py (r c)) columns))"

definition spec_filter :: "pylib \<Rightarrow> row list \<Rightarrow> string \<Rightarrow> string \<Rightarrow> row list" where
  "spec_filter py rows query status =
     filter (\<lambda>r. contains (spec_row_text py r) (str_lower py query)
                \<and> (status = ''All'' \<or> r Status = S status)) rows"

text \<open>
  The dict the settings page hands to \<open>save_users\<close> when the operator creates the user
  bob on a fresh store: \<open>new_users = users.copy(); new_users["bob"] = hash_password(...)\<close>,
  with \<open>users\<close> the result of \<open>load_users\<close>.
\<close>

definition ex_users :: "pylib \<Rightarrow> pydict" where
  "ex_users py = dict_set (default_users py) (JStr ''bob'') (JStr (hash_password py ''s3cret-pw''))"

section \<open>Properties\<close>

subsection \<open>Registration\<close>

lemma msgs_distinct:
  "msg_required \<noteq> msg_duplicate" "msg_required \<noteq> msg_warranty" "msg_duplicate \<noteq> msg_warranty"
  by (simp_all add: msg_required_def msg_duplicate_def msg_warranty_def)

text \<open>The three checks are independent: each contributes its message or nothing.\<close>

lemma validation_errors_eq:
  "validation_errors py f rows =
     (if required_present py f then [] else [msg_required])
     @ (if new_asset py today f Asset_ID \<in> set (map (\<lambda>r. r Asset_ID) rows) then [msg_duplicate] else [])
     @ (if f_warranty f \<le> f_purchase f then [msg_warranty] else [])"
  by (simp add: validation_errors_def new_asset_def Let_def)

text \<open>
  C5.  A submission whose warranty date is not after its purchase date, the two being
  equal included, is rejected: the outcome is the list of messages, the message of the
  date check is among them, and nothing is saved (the world is returned as it was).
\<close>

theorem register_rejects_warranty_not_after_purchase:
  assumes "f_warranty f \<le> f_purchase f"
  shows "\<exists>errors. render_add_asset py today fault f (Frame rows) w = Inr (Rejected errors, w)
           \<and> msg_warranty \<in> set errors"
  using assms by (simp add: render_add_asset_def validation_errors_eq [of py f rows today] Let_def)

theorem register_rejects_warranty_equal_purchase_witness:
  "f_warranty (ex_form\<lparr>f_warranty := 19723\<rparr>) \<le> f_purchase (ex_form\<lparr>f_warranty := 19723\<rparr>)
   \<and> (\<exists>errors. render_add_asset ref_py 19800 No_Fault (ex_form\<lparr>f_warranty := 19723\<rparr>) (Frame []) ex_world
          = Inr (Rejected errors, ex_world) \<and> msg_warranty \<in> set errors)"
  using register_rejects_warranty_not_after_purchase
          [of "ex_form\<lparr>f_warranty := 19723\<rparr>" ref_py 19800 No_Fault "[]" ex_world]
  by (simp add: ex_form_def)

text \<open>
  C6, as stated, fails: a form that lacks only the asset name and a form that lacks only
  the brand are rejected with the same single message, which names no field.
\<close>

theorem required_fields_error_names_no_field:
  "render_add_asset ref_py 19800 No_Fault (ex_form\<lparr>f_name := ''''\<rparr>) (Frame []) ex_world
     = Inr (Rejected [''Required fields missing''], ex_world)
   \<and> render_add_asset ref_py 19800 No_Fault (ex_form\<lparr>f_brand := ''  ''\<rparr>) (Frame []) ex_world
     = Inr (Rejected [''Required fields missing''], ex_world)
   \<and> str_strip ref_py (f_name (ex_form\<lparr>f_name := ''''\<rparr>)) = []
   \<and> str_strip ref_py (f_brand (ex_form\<lparr>f_name := ''''\<rparr>)) \<noteq> []
   \<and> str_strip ref_py (f_name (ex_form\<lparr>f_brand := ''  ''\<rparr>)) \<noteq> []
   \<and> str_strip ref_py (f_brand (ex_form\<lparr>f_brand := ''  ''\<rparr>)) = []"
  by (simp add: render_add_asset_def validation_errors_def required_present_def ref_py_def ex_form_def
        ref_strip_def is_space_def Let_def msg_required_def)

text \<open>
  C6, amended.  A rejected submission is answered with one message for each of the three
  checks that failed, in the order of the checks and not only the first: the required
  fields (asset id, name, brand and category as one check, whose message names no field),
  the uniqueness of the asset id, and the order of the two dates.  Nothing is saved.
\<close>

theorem register_reports_every_failed_check:
  assumes "render_add_asset py today fault f (Frame rows) w = Inr (Rejected errors, w')"
  shows "w' = w
    \<and> errors = (if required_present py f then [] else [msg_required])
        @ (if new_asset py today f Asset_ID \<in> set (map (\<lambda>r. r Asset_ID) rows) then [msg_duplicate] else [])
        @ (if f_warranty f \<le> f_purchase f then [msg_warranty] else [])
    \<and> (msg_required \<in> set errors \<longleftrightarrow> \<not> required_present py f)
    \<and> (msg_duplicate \<in> set errors \<longleftrightarrow> new_asset py today f Asset_ID \<in> set (map (\<lambda>r. r Asset_ID) rows))
    \<and> (msg_warranty \<in> set errors \<longleftrightarrow> f_warranty f \<le> f_purchase f)"
proof -
  from assms have e: "errors = validation_errors py f rows" and w: "w' = w"
    by (auto simp add: render_add_asset_def Let_def split: if_splits)
  show ?thesis
    unfolding e w validation_errors_eq [of py f rows today]
    using msgs_distinct by auto
qed

lemma ex_three_errors:
  "render_add_asset ref_py 19800 No_Fault (ex_form\<lparr>f_name := '''', f_warranty := 19723\<rparr>)
       (Frame [new_asset ref_py 19723 ex_form]) ex_world
     = Inr (Rejected [msg_required, msg_duplicate, msg_warranty], ex_world)"
  by (simp add: render_add_asset_def validation_errors_def required_present_def ref_py_def ex_form_def
        ref_strip_def is_space_def Let_def new_asset_def)

theorem register_reports_every_failed_check_witness:
  "render_add_asset ref_py 19800 No_Fault (ex_form\<lparr>f_name := '''', f_warranty := 19723\<rparr>)
       (Frame [new_asset ref_py 19723 ex_form]) ex_world
     = Inr (Rejected [msg_required, msg_duplicate, msg_warranty], ex_world)
   \<and> \<not> required_present ref_py (ex_form\<lparr>f_name := '''', f_warranty := 19723\<rparr>)
   \<and> f_warranty (ex_form\<lparr>f_name := '''', f_warranty := 19723\<rparr>)
       \<le> f_purchase (ex_form\<lparr>f_name := '''', f_warranty := 19723\<rparr>)"
proof -
  note c = register_reports_every_failed_check [OF ex_three_errors]
  have m1: "msg_required \<in> set [msg_required, msg_duplicate, msg_warranty]" by simp
  have m3: "msg_warranty \<in> set [msg_required, msg_duplicate, msg_warranty]" by simp
  note r1 = c [THEN conjunct2, THEN conjunct2, THEN conjunct1, THEN iffD1, OF m1]
  note r3 = c [THEN conjunct2, THEN conjunct2, THEN conjunct2, THEN conjunct2, THEN iffD1, OF m3]
  show ?thesis
    by (intro conjI) (rule ex_three_errors, rule r1, rule r3)
qed

subsection \<open>Dashboard\<close>

text \<open>
  C2 does not hold of the code.  With today = day 20000, a single record whose warranty
  ended the day before is counted under "Expiring Soon", while no warranty date lies in
  the interval from today to today + 90 days: the comparison with the threshold has no
  lower bound.
\<close>

theorem expired_warranty_is_counted:
  "render_dashboard 20000 (Frame [(\<lambda>c. S '''')(Warranty_Expiry := TS 19999)])
     = Inr (Some \<lparr>total = 1, assigned = 0, available = 0, repair = 0, expiring = 1\<rparr>)
   \<and> spec_expiring_soon 20000 [(\<lambda>c. S '''')(Warranty_Expiry := TS 19999)] = 0"
  by (simp add: render_dashboard_def expiring_soon_def lt_timestamp_def isna_def count_status_def
        spec_expiring_soon_def Let_def)

subsection \<open>Credential store\<close>

lemma hexdigit_lower_hex: "hexdigit n \<in> set ''0123456789abcdef''"
proof -
  have "n mod 16 < length ''0123456789abcdef''" by simp
  then show ?thesis unfolding hexdigit_def by (rule nth_mem)
qed

lemma hexdigest_lower_hex: "set (hexdigest bs) \<subseteq> set ''0123456789abcdef''"
  unfolding hexdigest_def using hexdigit_lower_hex by (induction bs) auto

lemma hexdigest_length: "length (hexdigest bs) = 2 * length bs"
  unfolding hexdigest_def by (induction bs) auto

lemma login_on_absent_store:
  assumes "users_file w = Absent"
  shows "render_login_page py ''admin'' ''Admin@2024'' w = (True, w)"
  using assms by (simp add: render_login_page_def load_users_def default_users_def)

text \<open>
  C7.  The verifier of a secret is the lower-case hexadecimal digest of SHA-256 applied
  to "itsm_salt_" followed by the secret; as a function of the secret alone it gives the
  same verifier on every call.  On a store without a credential file \<open>load_users\<close> returns
  the bootstrap identity, and the login check accepts admin with Admin@2024.
\<close>

theorem verifier_and_bootstrap_login:
  "hash_password py secret = hexdigest (sha256 py (''itsm_salt_'' @ secret))
   \<and> set (hash_password py secret) \<subseteq> set ''0123456789abcdef''
   \<and> length (hash_password py secret) = 2 * length (sha256 py (''itsm_salt_'' @ secret))
   \<and> (users_file w = Absent \<longrightarrow>
        fst (load_users py w) = [(JStr ''admin'', JStr (hash_password py ''Admin@2024''))]
        \<and> render_login_page py ''admin'' ''Admin@2024'' w = (True, w))"
proof (intro conjI impI)
  show "hash_password py secret = hexdigest (sha256 py (''itsm_salt_'' @ secret))"
    by (simp only: hash_password_def)
  show "set (hash_password py secret) \<subseteq> set ''0123456789abcdef''"
    unfolding hash_password_def by (rule hexdigest_lower_hex)
  show "length (hash_password py secret) = 2 * length (sha256 py (''itsm_salt_'' @ secret))"
    unfolding hash_password_def by (rule hexdigest_length)
next
  assume a: "users_file w = Absent"
  then show "fst (load_users py w) = [(JStr ''admin'', JStr (hash_password py ''Admin@2024''))]"
    by (simp add: load_users_def default_users_def)
  from a show "render_login_page py ''admin'' ''Admin@2024'' w = (True, w)"
    by (rule login_on_absent_store)
qed

theorem verifier_and_bootstrap_login_witness:
  "users_file ex_world = Absent
   \<and> render_login_page ref_py ''admin'' ''Admin@2024'' ex_world = (True, ex_world)"
proof -
  have a: "users_file ex_world = Absent" by (simp add: ex_world_def)
  note c = verifier_and_bootstrap_login [of ref_py "''Admin@2024''" ex_world, THEN conjunct2, THEN conjunct2, THEN conjunct2,
               THEN mp, OF a, THEN conjunct2]
  show ?thesis by (intro conjI) (rule a, rule c)
qed

text \<open>
  C1 does not hold of the code.  \<open>save_users\<close> writes only the values of the dict, so
  after the operator has added bob the file holds two verifiers and no username;
  \<open>load_users\<close> then fails on \<open>user['username']\<close>, logs the error and returns the
  bootstrap identity: bob is gone.
\<close>

theorem save_users_drops_usernames:
  "ex_users py = [(JStr ''admin'', JStr (hash_password py ''Admin@2024'')),
                  (JStr ''bob'', JStr (hash_password py ''s3cret-pw''))]
   \<and> users_file (save_users No_Fault (ex_users py) w)
       = Doc (JArr [JStr (hash_password py ''Admin@2024''), JStr (hash_password py ''s3cret-pw'')])
   \<and> fst (load_users py (save_users No_Fault (ex_users py) w)) = default_users py
   \<and> dict_get (ex_users py) (JStr ''bob'') = Some (JStr (hash_password py ''s3cret-pw''))
   \<and> dict_get (fst (load_users py (save_users No_Fault (ex_users py) w))) (JStr ''bob'') = None"
  by (simp add: ex_users_def default_users_def save_users_def load_users_def)

subsection \<open>Loading and saving\<close>

lemma load_assets_table:
  assumes "cache w = None" and "assets_file w = Table trs"
  shows "load_assets py w = (Frame (loaded py trs), w\<lparr>cache := Some (Frame (loaded py trs))\<rparr>)"
  using assms by (simp add: load_assets_def load_assets_body_def read_csv_def loaded_def read_rows_def)

lemma astype_cost_other: "c \<noteq> Cost \<Longrightarrow> map (\<lambda>r. r c) (astype_cost py rows) = map (\<lambda>r. r c) rows"
  by (simp add: astype_cost_def)

lemma astype_cost_length: "length (astype_cost py rows) = length rows"
  by (simp add: astype_cost_def)

lemma loaded_column:
  assumes "c \<noteq> Cost" and "c \<notin> set date_cols"
  shows "map (\<lambda>r. r c) (loaded py trs)
         = map (\<lambda>tr. case read_cell py (infer_dtype py (map (\<lambda>t. t c) trs)) (tr c) of NaN \<Rightarrow> S '''' | x \<Rightarrow> x) trs"
  using assms by (simp add: loaded_def astype_cost_other read_rows_def fillna_def coerce_dates_def comp_def)

lemma loaded_dates:
  assumes "r \<in> set (loaded py trs)" and "c \<in> set date_cols"
  shows "date_like (r c)"
proof -
  from assms(2) have cc: "c \<noteq> Cost" by (auto simp add: date_cols_def)
  from assms(1) have "r c \<in> set (map (\<lambda>r. r c) (loaded py trs))" by auto
  then have "r c \<in> set (map (\<lambda>r. r c) (map (\<lambda>r. fillna (coerce_dates py r)) (read_rows py trs)))"
    by (simp only: loaded_def astype_cost_other [OF cc])
  then obtain r0 where "r c = fillna (coerce_dates py r0) c" by auto
  with assms(2) show ?thesis
    by (auto simp add: fillna_def coerce_dates_def date_like_def split: parsed.splits)
qed

lemma format_date_date_like:
  "date_like c \<Longrightarrow> format_date py c = (case c of TS d \<Rightarrow> Inr (S (strftime py d)) | D d \<Rightarrow> Inr (S (strftime py d)) | x \<Rightarrow> Inr x)"
  by (auto simp add: date_like_def format_date_def isna_def to_datetime_def split: cell.splits)

lemma format_dates_date_like:
  assumes "\<forall>r\<in>set rows. \<forall>c\<in>set date_cols. date_like (r c)"
  shows "format_dates py rows =
           Inr (map (\<lambda>r. \<lambda>c. if c \<in> set date_cols
                          then (case r c of TS d \<Rightarrow> S (strftime py d) | D d \<Rightarrow> S (strftime py d) | x \<Rightarrow> x)
                          else r c) rows)"
proof -
  have ok: "list_all (\<lambda>r. list_all (\<lambda>c. format_date py (r c) \<noteq> Inl ValueError) date_cols) rows"
    using assms by (auto simp add: list_all_iff format_date_date_like split: cell.splits)
  have eq: "map (\<lambda>r. \<lambda>c. if c \<in> set date_cols
                                then (case format_date py (r c) of Inr v \<Rightarrow> v | Inl e \<Rightarrow> r c)
                                else r c) rows
          = map (\<lambda>r. \<lambda>c. if c \<in> set date_cols
                          then (case r c of TS d \<Rightarrow> S (strftime py d) | D d \<Rightarrow> S (strftime py d) | x \<Rightarrow> x)
                          else r c) rows"
  proof (rule map_cong [OF refl], rule ext)
    fix r c assume "r \<in> set rows"
    with assms have "c \<in> set date_cols \<Longrightarrow> date_like (r c)" by blast
    then show "(if c \<in> set date_cols then (case format_date py (r c) of Inr v \<Rightarrow> v | Inl e \<Rightarrow> r c) else r c)
             = (if c \<in> set date_cols
                then (case r c of TS d \<Rightarrow> S (strftime py d) | D d \<Rightarrow> S (strftime py d) | x \<Rightarrow> x) else r c)"
      by (auto simp add: format_date_date_like split: cell.splits)
  qed
  show ?thesis unfolding format_dates_def using ok eq by simp
qed

lemma save_assets_ok:
  assumes "format_dates py rows = Inr rows'"
  shows "save_assets py No_Fault (Frame rows) w =
           w\<lparr>assets_file := Table (map (\<lambda>r. \<lambda>c. cell_text py (r c)) rows'), cache := None,
             log := log w @ [Saved (length rows)]\<rparr>"
  using assms by (simp add: save_assets_def to_csv_def df_len_def)

lemma new_asset_date_like: "c \<in> set date_cols \<Longrightarrow> date_like (new_asset py today f c)"
  by (auto simp add: date_cols_def new_asset_def date_like_def)

lemma format_dates_column:
  assumes "\<forall>r\<in>set rows. \<forall>c\<in>set date_cols. date_like (r c)" and "c \<notin> set date_cols"
  shows "\<exists>rows'. format_dates py rows = Inr rows' \<and> map (\<lambda>r. r c) rows' = map (\<lambda>r. r c) rows"
  using assms by (simp add: format_dates_date_like comp_def)

lemma saved_column:
  assumes "\<forall>r\<in>set rows. \<forall>c\<in>set date_cols. date_like (r c)" and "c \<notin> set date_cols"
  shows "file_column c (save_assets py No_Fault (Frame rows) w) = map (\<lambda>r. cell_text py (r c)) rows"
    and "cache (save_assets py No_Fault (Frame rows) w) = None"
    and "\<exists>trs. assets_file (save_assets py No_Fault (Frame rows) w) = Table trs"
proof -
  from format_dates_column [OF assms] obtain rows' where
    f: "format_dates py rows = Inr rows'" and m: "map (\<lambda>r. r c) rows' = map (\<lambda>r. r c) rows"
    by blast
  have "map (\<lambda>r. cell_text py (r c)) rows' = map (cell_text py) (map (\<lambda>r. r c) rows')"
    by (simp add: comp_def)
  also have "\<dots> = map (cell_text py) (map (\<lambda>r. r c) rows)" by (simp only: m)
  finally have "map (\<lambda>r. cell_text py (r c)) rows' = map (\<lambda>r. cell_text py (r c)) rows"
    by (simp add: comp_def)
  then show "file_column c (save_assets py No_Fault (Frame rows) w) = map (\<lambda>r. cell_text py (r c)) rows"
    by (simp add: save_assets_ok [OF f] file_column_def comp_def)
  show "cache (save_assets py No_Fault (Frame rows) w) = None"
    by (simp add: save_assets_ok [OF f])
  show "\<exists>trs. assets_file (save_assets py No_Fault (Frame rows) w) = Table trs"
    by (simp add: save_assets_ok [OF f])
qed

lemma id_not_date: "Asset_ID \<notin> set date_cols" "Asset_ID \<noteq> Cost"
  by (simp_all add: date_cols_def)

lemma strip7: "str_strip ref_py ''7'' = ''7''"
  by (simp add: ref_py_def ref_strip_def is_space_def)

lemma ex_form7_required: "required_present ref_py ex_form7"
  by (simp add: required_present_def ex_form7_def ex_form_def ref_py_def ref_strip_def is_space_def)

lemma ex_form7_id: "new_asset ref_py today ex_form7 Asset_ID = S ''7''"
  by (simp add: new_asset_def ex_form7_def strip7)

lemma ex_form7_dates: "\<not> f_warranty ex_form7 \<le> f_purchase ex_form7"
  by (simp add: ex_form7_def ex_form_def)

lemma init_ex_world: "init_storage ex_world = ex_world"
  by (simp add: init_storage_def ex_world_def Let_def)

lemma load_ex_world: "load_assets ref_py ex_world = (Frame [], ex_world\<lparr>cache := Some (Frame [])\<rparr>)"
proof -
  have "load_assets ref_py ex_world = (Frame (loaded ref_py []), ex_world\<lparr>cache := Some (Frame (loaded ref_py []))\<rparr>)"
    by (rule load_assets_table) (simp_all add: ex_world_def)
  moreover have "loaded ref_py [] = []" by (simp add: loaded_def read_rows_def astype_cost_def)
  ultimately show ?thesis by simp
qed

lemma first_run:
  "main_add_asset ref_py 19800 No_Fault ex_form7 ex_world
     = Inr (Registered (Frame [new_asset ref_py 19800 ex_form7]),
            save_assets ref_py No_Fault (Frame [new_asset ref_py 19800 ex_form7]) (ex_world\<lparr>cache := Some (Frame [])\<rparr>))"
  by (simp add: main_add_asset_def init_ex_world load_ex_world render_add_asset_def
        validation_errors_eq [of ref_py ex_form7 "[]" 19800] ex_form7_required ex_form7_dates Let_def)

lemma ex_w1_eq:
  "ex_w1 = save_assets ref_py No_Fault (Frame [new_asset ref_py 19800 ex_form7]) (ex_world\<lparr>cache := Some (Frame [])\<rparr>)"
  by (simp add: ex_w1_def first_run world_after_def)

lemma ex_w1_facts:
  "file_column Asset_ID ex_w1 = [''7'']" "cache ex_w1 = None" "\<exists>trs. assets_file ex_w1 = Table trs"
proof -
  have d: "\<forall>r\<in>set [new_asset ref_py 19800 ex_form7]. \<forall>c\<in>set date_cols. date_like (r c)"
    by (simp add: new_asset_date_like)
  show "file_column Asset_ID ex_w1 = [''7'']"
    unfolding ex_w1_eq by (simp add: saved_column(1) [OF d id_not_date(1)] ex_form7_id cell_text_def)
  show "cache ex_w1 = None"
    unfolding ex_w1_eq by (rule saved_column(2) [OF d id_not_date(1)])
  show "\<exists>trs. assets_file ex_w1 = Table trs"
    unfolding ex_w1_eq by (rule saved_column(3) [OF d id_not_date(1)])
qed

lemma parse7: "ref_parse_int ''7'' = Some 7"
  by (simp add: ref_parse_int_def ref_parse_nat_def is_digit_def digits_value_def)

lemma na7: "\<not> is_na ''7''"
  by (simp add: is_na_def na_values_def)

lemma read7: "read_cell ref_py (infer_dtype ref_py [''7'']) ''7'' = I 7"
  by (simp add: infer_dtype_def read_cell_def na7 parse7 ref_py_def Let_def)

lemma init_storage_table: "assets_file w = Table trs \<Longrightarrow> init_storage w = w"
  by (simp add: init_storage_def Let_def)

lemma show7: "show_int 7 = ''7''"
  by code_simp

lemma second_run:
  "registered (main_add_asset ref_py 19800 No_Fault ex_form7 ex_w1)
   \<and> file_column Asset_ID ex_w2 = [''7'', ''7'']"
proof -
  from ex_w1_facts(3) obtain trs where t: "assets_file ex_w1 = Table trs" by blast
  with ex_w1_facts(1) have ids: "map (\<lambda>t. t Asset_ID) trs = [''7'']"
    by (simp add: file_column_def)
  then obtain t0 where trs: "trs = [t0]" and t0: "t0 Asset_ID = ''7''" by auto
  let ?rows = "loaded ref_py trs"
  let ?w = "ex_w1\<lparr>cache := Some (Frame ?rows)\<rparr>"
  have ld: "load_assets ref_py (init_storage ex_w1) = (Frame ?rows, ?w)"
    by (simp add: init_storage_table [OF t] load_assets_table [OF ex_w1_facts(2) t])
  have col: "map (\<lambda>r. r Asset_ID) ?rows = [I 7]"
    by (simp add: loaded_column [OF id_not_date(2) id_not_date(1)] trs t0 read7)
  have ok: "validation_errors ref_py ex_form7 ?rows = []"
    by (simp add: validation_errors_eq [of ref_py ex_form7 ?rows 19800] ex_form7_required ex_form7_dates
          ex_form7_id col)
  let ?n = "new_asset ref_py 19800 ex_form7"
  have run: "main_add_asset ref_py 19800 No_Fault ex_form7 ex_w1
      = Inr (Registered (Frame (?rows @ [?n])), save_assets ref_py No_Fault (Frame (?rows @ [?n])) ?w)"
    by (simp add: main_add_asset_def ld render_add_asset_def ok Let_def)
  have d: "\<forall>r\<in>set (?rows @ [?n]). \<forall>c\<in>set date_cols. date_like (r c)"
    by (auto simp add: new_asset_date_like loaded_dates)
  have w2: "ex_w2 = save_assets ref_py No_Fault (Frame (?rows @ [?n])) ?w"
    by (simp add: ex_w2_def run world_after_def)
  have "file_column Asset_ID ex_w2 = map (\<lambda>r. cell_text ref_py (r Asset_ID)) (?rows @ [?n])"
    unfolding w2 by (rule saved_column(1) [OF d id_not_date(1)])
  also have "\<dots> = map (cell_text ref_py) (map (\<lambda>r. r Asset_ID) ?rows @ [?n Asset_ID])"
    by (simp add: comp_def)
  also have "\<dots> = [''7'', ''7'']"
    by (simp add: col ex_form7_id cell_text_def show7)
  finally have f: "file_column Asset_ID ex_w2 = [''7'', ''7'']" .
  have "registered (main_add_asset ref_py 19800 No_Fault ex_form7 ex_w1)"
    by (simp add: run registered_def)
  with f show ?thesis by simp
qed

text \<open>
  C4 does not hold of the code.  The asset id 7 is registered on an initialised store;
  the file then holds the id as the field 7, which \<open>read_csv\<close> reads back as the integer 7
  of an int64 column.  The same form is submitted again: the string "7" is not among the
  values of that column, so no error is raised, the asset is registered a second time,
  and the file holds two records with the asset id 7.
\<close>

theorem numeric_asset_id_registered_twice:
  "registered (main_add_asset ref_py 19800 No_Fault ex_form7 ex_world)
   \<and> file_column Asset_ID ex_w1 = [''7'']
   \<and> registered (main_add_asset ref_py 19800 No_Fault ex_form7 ex_w1)
   \<and> file_column Asset_ID ex_w2 = [''7'', ''7'']"
  using second_run ex_w1_facts(1) by (simp add: first_run registered_def)

subsection \<open>Search and status filter\<close>

lemmas char_eval = char_of_def bit_iff_odd

lemma frac_digits_0: "frac_digits k 0 = []"
  by (cases k) simp_all

lemma ex_cost: "ref_repr_float 1500 = ''1500.0''"
  by (simp add: ref_repr_float_def Let_def frac_digits_0 char_eval)

lemma ref_py_simps:
  "str_lower ref_py s = map lower_char s" "astype_str ref_py = ref_astype_str"
  by (simp_all add: ref_py_def ref_lower_def)

lemma ex_loaded_text:
  "row_text ref_py ex_loaded_row =
     ''lap001 dell latitude laptop dell latitude 5420 sn123 available  nat nat hq 1500.0  nat nat''"
  by (simp add: row_text_def columns_def ex_loaded_row_def ref_py_simps ref_astype_str_def
        ex_cost lower_char_def char_eval)

lemma ex_server_text:
  "row_text ref_py ex_server_row =
     ''srv9 rack server server dell r740 sn123 available  nat nat hq 1500.0  nat nat''"
  by (simp add: row_text_def columns_def ex_server_row_def ex_loaded_row_def ref_py_simps ref_astype_str_def
        ex_cost lower_char_def char_eval)

lemma ex_assigned_text:
  "row_text ref_py ex_assigned_row =
     ''lap002 dell latitude laptop dell latitude 5420 sn123 assigned  nat nat hq 1500.0  nat nat''"
  by (simp add: row_text_def columns_def ex_assigned_row_def ex_loaded_row_def ref_py_simps ref_astype_str_def
        ex_cost lower_char_def char_eval)

lemma ex_loaded_spec_text:
  "spec_row_text ref_py ex_loaded_row =
     ''lap001dell latitudelaptopdelllatitude 5420sn123availablenatnathq1500.0natnat''"
  by (simp add: spec_row_text_def columns_def ex_loaded_row_def ref_py_simps ref_astype_str_def
        ex_cost lower_char_def char_eval)

lemma ex_queries:
  "str_lower ref_py ''LAPTOP'' = ''laptop''" "str_lower ref_py ''laptopdell'' = ''laptopdell''"
  by (simp_all add: ref_py_simps lower_char_def char_eval)

lemma ex_statuses:
  "ex_loaded_row Status = S ''Available''" "ex_server_row Status = S ''Available''"
  "ex_assigned_row Status = S ''Assigned''"
  by (simp_all add: ex_loaded_row_def ex_server_row_def ex_assigned_row_def)

lemma contains_iff: "contains t n \<longleftrightarrow> (\<exists>p s. t = p @ n @ s)"
proof (induction t)
  case Nil
  then show ?case by simp
next
  case (Cons c cs)
  show ?case
  proof
    assume "contains (c # cs) n"
    then consider "prefix n (c # cs)" | "contains cs n" by auto
    then show "\<exists>p s. c # cs = p @ n @ s"
    proof cases
      case 1
      then obtain s where "c # cs = n @ s" by (auto simp: prefix_def)
      then have "c # cs = [] @ n @ s" by simp
      then show ?thesis by blast
    next
      case 2
      with Cons.IH obtain p s where "cs = p @ n @ s" by blast
      then have "c # cs = (c # p) @ n @ s" by simp
      then show ?thesis by blast
    qed
  next
    assume "\<exists>p s. c # cs = p @ n @ s"
    then obtain p s where eq: "c # cs = p @ n @ s" by blast
    show "contains (c # cs) n"
    proof (cases p)
      case Nil
      with eq have "prefix n (c # cs)" by (simp add: prefix_def)
      then show ?thesis by simp
    next
      case (Cons a p')
      with eq have "cs = p' @ n @ s" by simp
      with Cons.IH have "contains cs n" by blast
      then show ?thesis by simp
    qed
  qed
qed

lemma row_text_fields:
  "row_text py r =
     (str_lower py (astype_str py (r Asset_ID)) @ '' '' @
              str_lower py (astype_str py (r Asset_Name)) @ '' '' @
              str_lower py (astype_str py (r Category)) @ '' '' @
              str_lower py (astype_str py (r Brand)) @ '' '' @
              str_lower py (astype_str py (r Model)) @ '' '' @
              str_lower py (astype_str py (r Serial_No)) @ '' '' @
              str_lower py (astype_str py (r Status)) @ '' '' @
              str_lower py (astype_str py (r Assigned_To)) @ '' '' @
              str_lower py (astype_str py (r Purchase_Date)) @ '' '' @
              str_lower py (astype_str py (r Warranty_Expiry)) @ '' '' @
              str_lower py (astype_str py (r Location)) @ '' '' @
              str_lower py (astype_str py (r Cost)) @ '' '' @
              str_lower py (astype_str py (r Notes)) @ '' '' @
              str_lower py (astype_str py (r Created_Date)) @ '' '' @
              str_lower py (astype_str py (r Last_Updated)))"
  by (simp add: row_text_def columns_def)

text \<open>
  C8, as stated, fails.  The code does not search the concatenation of the field values:
  it joins them with single spaces.  For a laptop of the brand Dell the query
  "laptopdell" occurs in the concatenated text, and the filter of the specification keeps
  the record, but the code drops it.
\<close>

theorem match_across_fields_needs_the_space:
  "render_manage_assets ref_py (Frame [ex_loaded_row]) ''laptopdell'' ''All'' = Inr (Frame [])
   \<and> spec_filter ref_py [ex_loaded_row] ''laptopdell'' ''All'' = [ex_loaded_row]"
  by (simp add: render_manage_assets_def spec_filter_def Let_def ex_queries ex_loaded_text ex_loaded_spec_text)

text \<open>
  C8, amended.  With an empty query and the status "All" the frame comes back as it is.
  In general the result keeps, in the order of the input, exactly the rows for which the
  lower-cased query is a substring of the fifteen field values as text, each in lower
  case, joined by single spaces in the order of the columns (unless the query is empty),
  and whose status is the string asked for (unless that is "All").
\<close>

theorem filter_matches_space_joined_text:
  "render_manage_assets py df [] ''All'' = Inr df
   \<and> render_manage_assets py (Frame rows) search status_filter =
       Inr (Frame (filter
         (\<lambda>r. (search = [] \<or>
                (\<exists>p s.
                   (str_lower py (astype_str py (r Asset_ID)) @ '' '' @
              str_lower py (astype_str py (r Asset_Name)) @ '' '' @
              str_lower py (astype_str py (r Category)) @ '' '' @
              str_lower py (astype_str py (r Brand)) @ '' '' @
              str_lower py (astype_str py (r Model)) @ '' '' @
              str_lower py (astype_str py (r Serial_No)) @ '' '' @
              str_lower py (astype_str py (r Status)) @ '' '' @
              str_lower py (astype_str py (r Assigned_To)) @ '' '' @
              str_lower py (astype_str py (r Purchase_Date)) @ '' '' @
              str_lower py (astype_str py (r Warranty_Expiry)) @ '' '' @
              str_lower py (astype_str py (r Location)) @ '' '' @
              str_lower py (astype_str py (r Cost)) @ '' '' @
              str_lower py (astype_str py (r Notes)) @ '' '' @
              str_lower py (astype_str py (r Created_Date)) @ '' '' @
              str_lower py (astype_str py (r Last_Updated)))
                   = p @ str_lower py search @ s))
              \<and> (status_filter = ''All'' \<or> r Status = S status_filter)) rows))"
proof
  show "render_manage_assets py df [] ''All'' = Inr df"
    by (cases df) (simp_all add: render_manage_assets_def)
next
  have "filter (\<lambda>r. r Status = S status_filter) (filter (\<lambda>r. contains (row_text py r) (str_lower py search)) rows)
      = filter (\<lambda>r. contains (row_text py r) (str_lower py search) \<and> r Status = S status_filter) rows"
    by (simp add: conj_commute)
  then have "render_manage_assets py (Frame rows) search status_filter =
       Inr (Frame (filter (\<lambda>r. (search = [] \<or> (\<exists>p s. row_text py r = p @ str_lower py search @ s))
                              \<and> (status_filter = ''All'' \<or> r Status = S status_filter)) rows))"
    by (simp add: render_manage_assets_def Let_def contains_iff)
  then show "render_manage_assets py (Frame rows) search status_filter =
       Inr (Frame (filter
         (\<lambda>r. (search = [] \<or>
                (\<exists>p s.
                   (str_lower py (astype_str py (r Asset_ID)) @ '' '' @
              str_lower py (astype_str py (r Asset_Name)) @ '' '' @
              str_lower py (astype_str py (r Category)) @ '' '' @
              str_lower py (astype_str py (r Brand)) @ '' '' @
              str_lower py (astype_str py (r Model)) @ '' '' @
              str_lower py (astype_str py (r Serial_No)) @ '' '' @
              str_lower py (astype_str py (r Status)) @ '' '' @
              str_lower py (astype_str py (r Assigned_To)) @ '' '' @
              str_lower py (astype_str py (r Purchase_Date)) @ '' '' @
              str_lower py (astype_str py (r Warranty_Expiry)) @ '' '' @
              str_lower py (astype_str py (r Location)) @ '' '' @
              str_lower py (astype_str py (r Cost)) @ '' '' @
              str_lower py (astype_str py (r Notes)) @ '' '' @
              str_lower py (astype_str py (r Created_Date)) @ '' '' @
              str_lower py (astype_str py (r Last_Updated)))
                   = p @ str_lower py search @ s))
              \<and> (status_filter = ''All'' \<or> r Status = S status_filter)) rows))"
    by (simp only: row_text_fields)
qed

lemma ex_filter_run:
  "render_manage_assets ref_py (Frame [ex_loaded_row, ex_server_row, ex_assigned_row]) ''LAPTOP'' ''Available''
     = Inr (Frame [ex_loaded_row])"
  by (simp add: render_manage_assets_def Let_def ex_queries ex_loaded_text ex_server_text ex_assigned_text
        ex_statuses)

theorem filter_matches_space_joined_text_witness:
  "render_manage_assets ref_py (Frame [ex_loaded_row, ex_server_row, ex_assigned_row]) [] ''All''
     = Inr (Frame [ex_loaded_row, ex_server_row, ex_assigned_row])
   \<and> render_manage_assets ref_py (Frame [ex_loaded_row, ex_server_row, ex_assigned_row]) ''LAPTOP'' ''Available''
     = Inr (Frame [ex_loaded_row])
   \<and> filter
         (\<lambda>r. (''LAPTOP'' = [] \<or>
                (\<exists>p s.
                   (str_lower ref_py (astype_str ref_py (r Asset_ID)) @ '' '' @
              str_lower ref_py (astype_str ref_py (r Asset_Name)) @ '' '' @
              str_lower ref_py (astype_str ref_py (r Category)) @ '' '' @
              str_lower ref_py (astype_str ref_py (r Brand)) @ '' '' @
              str_lower ref_py (astype_str ref_py (r Model)) @ '' '' @
              str_lower ref_py (astype_str ref_py (r Serial_No)) @ '' '' @
              str_lower ref_py (astype_str ref_py (r Status)) @ '' '' @
              str_lower ref_py (astype_str ref_py (r Assigned_To)) @ '' '' @
              str_lower ref_py (astype_str ref_py (r Purchase_Date)) @ '' '' @
              str_lower ref_py (astype_str ref_py (r Warranty_Expiry)) @ '' '' @
              str_lower ref_py (astype_str ref_py (r Location)) @ '' '' @
              str_lower ref_py (astype_str ref_py (r Cost)) @ '' '' @
              str_lower ref_py (astype_str ref_py (r Notes)) @ '' '' @
              str_lower ref_py (astype_str ref_py (r Created_Date)) @ '' '' @
              str_lower ref_py (astype_str ref_py (r Last_Updated)))
                   = p @ str_lower ref_py ''LAPTOP'' @ s))
              \<and> (''Available'' = ''All'' \<or> r Status = S ''Available''))
         [ex_loaded_row, ex_server_row, ex_assigned_row]
       = [ex_loaded_row]"
proof -
  note t = filter_matches_space_joined_text [of ref_py "Frame [ex_loaded_row, ex_server_row, ex_assigned_row]"
                 "[ex_loaded_row, ex_server_row, ex_assigned_row]" "''LAPTOP''" "''Available''"]
  note a = t [THEN conjunct1]
  note b = t [THEN conjunct2]
  from b ex_filter_run have "Inr (Frame (filter
         (\<lambda>r. (''LAPTOP'' = [] \<or>
                (\<exists>p s.
                   (str_lower ref_py (astype_str ref_py (r Asset_ID)) @ '' '' @
              str_lower ref_py (astype_str ref_py (r Asset_Name)) @ '' '' @
              str_lower ref_py (astype_str ref_py (r Category)) @ '' '' @
              str_lower ref_py (astype_str ref_py (r Brand)) @ '' '' @
              str_lower ref_py (astype_str ref_py (r Model)) @ '' '' @
              str_lower ref_py (astype_str ref_py (r Serial_No)) @ '' '' @
              str_lower ref_py (astype_str ref_py (r Status)) @ '' '' @
              str_lower ref_py (astype_str ref_py (r Assigned_To)) @ '' '' @
              str_lower ref_py (astype_str ref_py (r Purchase_Date)) @ '' '' @
              str_lower ref_py (astype_str ref_py (r Warranty_Expiry)) @ '' '' @
              str_lower ref_py (astype_str ref_py (r Location)) @ '' '' @
              str_lower ref_py (astype_str ref_py (r Cost)) @ '' '' @
              str_lower ref_py (astype_str ref_py (r Notes)) @ '' '' @
              str_lower ref_py (astype_str ref_py (r Created_Date)) @ '' '' @
              str_lower ref_py (astype_str ref_py (r Last_Updated)))
                   = p @ str_lower ref_py ''LAPTOP'' @ s))
              \<and> (''Available'' = ''All'' \<or> r Status = S ''Available''))
         [ex_loaded_row, ex_server_row, ex_assigned_row])) = (Inr (Frame [ex_loaded_row]) :: py_error + dataframe)"
    by (rule trans [OF sym])
  then have c: "filter
         (\<lambda>r. (''LAPTOP'' = [] \<or>
                (\<exists>p s.
                   (str_lower ref_py (astype_str ref_py (r Asset_ID)) @ '' '' @
              str_lower ref_py (astype_str ref_py (r Asset_Name)) @ '' '' @
              str_lower ref_py (astype_str ref_py (r Category)) @ '' '' @
              str_lower ref_py (astype_str ref_py (r Brand)) @ '' '' @
              str_lower ref_py (astype_str ref_py (r Model)) @ '' '' @
              str_lower ref_py (astype_str ref_py (r Serial_No)) @ '' '' @
              str_lower ref_py (astype_str ref_py (r Status)) @ '' '' @
              str_lower ref_py (astype_str ref_py (r Assigned_To)) @ '' '' @
              str_lower ref_py (astype_str ref_py (r Purchase_Date)) @ '' '' @
              str_lower ref_py (astype_str ref_py (r Warranty_Expiry)) @ '' '' @
              str_lower ref_py (astype_str ref_py (r Location)) @ '' '' @
              str_lower ref_py (astype_str ref_py (r Cost)) @ '' '' @
              str_lower ref_py (astype_str ref_py (r Notes)) @ '' '' @
              str_lower ref_py (astype_str ref_py (r Created_Date)) @ '' '' @
              str_lower ref_py (astype_str ref_py (r Last_Updated)))
                   = p @ str_lower ref_py ''LAPTOP'' @ s))
              \<and> (''Available'' = ''All'' \<or> r Status = S ''Available''))
         [ex_loaded_row, ex_server_row, ex_assigned_row]
       = [ex_loaded_row]"
    by (simp only: sum.inject dataframe.inject)
  show ?thesis
    by (intro conjI) (rule a, rule ex_filter_run, rule c)
qed

subsection \<open>Round trip through the file\<close>

lemma notes_not_date: "Notes \<notin> set date_cols" "Notes \<noteq> Cost"
  by (simp_all add: date_cols_def)

lemma ex_na_cells:
  "new_asset ref_py 19800 ex_form_na Notes = S ''NA''"
  "new_asset ref_py 19800 ex_form_na Asset_ID = S ''LAP001''"
  by (simp_all add: new_asset_def ex_form_na_def ex_form_def ref_py_def ref_strip_def is_space_def)

lemma ex_saved_na_facts:
  "file_column Notes ex_saved_na = [''NA'']" "file_column Asset_ID ex_saved_na = [''LAP001'']"
  "cache ex_saved_na = None" "\<exists>trs. assets_file ex_saved_na = Table trs"
proof -
  have d: "\<forall>r\<in>set [new_asset ref_py 19800 ex_form_na]. \<forall>c\<in>set date_cols. date_like (r c)"
    by (simp add: new_asset_date_like)
  show "file_column Notes ex_saved_na = [''NA'']"
    unfolding ex_saved_na_def by (simp add: saved_column(1) [OF d notes_not_date(1)] ex_na_cells cell_text_def)
  show "file_column Asset_ID ex_saved_na = [''LAP001'']"
    unfolding ex_saved_na_def by (simp add: saved_column(1) [OF d id_not_date(1)] ex_na_cells cell_text_def)
  show "cache ex_saved_na = None"
    unfolding ex_saved_na_def by (rule saved_column(2) [OF d id_not_date(1)])
  show "\<exists>trs. assets_file ex_saved_na = Table trs"
    unfolding ex_saved_na_def by (rule saved_column(3) [OF d id_not_date(1)])
qed

lemma read_na: "read_cell py dt ''NA'' = NaN"
  by (simp add: read_cell_def is_na_def na_values_def)

lemma read_lap001: "read_cell ref_py (infer_dtype ref_py [''LAP001'']) ''LAP001'' = S ''LAP001''"
  by (simp add: infer_dtype_def read_cell_def is_na_def na_values_def parse_bool_def ref_py_def
        ref_parse_int_def ref_parse_float_def ref_parse_ufloat_def ref_parse_nat_def is_digit_def Let_def)

text \<open>
  C3 does not hold of the code.  A record whose note is the text "NA" is saved; the file
  holds the field NA, which \<open>read_csv\<close> takes for a missing value and \<open>fillna\<close> turns into
  the empty string: the note comes back empty.  (The asset id LAP001 comes back as it
  was; an all-digit id comes back as a number, see C4.)
\<close>

theorem na_note_lost_on_round_trip:
  "column Notes (Frame [new_asset ref_py 19800 ex_form_na]) = [S ''NA'']
   \<and> file_column Notes ex_saved_na = [''NA'']
   \<and> column Notes (fst (load_assets ref_py ex_saved_na)) = [S '''']
   \<and> column Asset_ID (fst (load_assets ref_py ex_saved_na)) = [S ''LAP001'']"
proof -
  from ex_saved_na_facts(4) obtain trs where t: "assets_file ex_saved_na = Table trs" by blast
  from ex_saved_na_facts(1) t have n: "map (\<lambda>t. t Notes) trs = [''NA'']" by (simp add: file_column_def)
  from ex_saved_na_facts(2) t have i: "map (\<lambda>t. t Asset_ID) trs = [''LAP001'']" by (simp add: file_column_def)
  from n obtain t0 where trs: "trs = [t0]" by auto
  from n i trs have t0: "t0 Notes = ''NA''" "t0 Asset_ID = ''LAP001''" by simp_all
  have ld: "fst (load_assets ref_py ex_saved_na) = Frame (loaded ref_py trs)"
    by (simp add: load_assets_table [OF ex_saved_na_facts(3) t])
  have a: "column Notes (fst (load_assets ref_py ex_saved_na)) = [S '''']"
    by (simp add: ld column_def loaded_column [OF notes_not_date(2) notes_not_date(1)] trs t0 read_na)
  have b: "column Asset_ID (fst (load_assets ref_py ex_saved_na)) = [S ''LAP001'']"
    by (simp add: ld column_def loaded_column [OF id_not_date(2) id_not_date(1)] trs t0 read_lap001)
  show ?thesis
    using a b ex_saved_na_facts(1) by (simp add: column_def ex_na_cells)
qed

subsection \<open>The Cost column on load\<close>

lemma cost_not_date: "Cost \<notin> set date_cols"
  by (simp add: date_cols_def)

lemma read_cell_cases:
  "read_cell py dt s = NaN \<or> (\<exists>t. read_cell py dt s = S t) \<or> (\<exists>n. read_cell py dt s = I n)
   \<or> (\<exists>x. read_cell py dt s = F x) \<or> (\<exists>b. read_cell py dt s = B b)"
  by (auto simp add: read_cell_def split: dtype.splits option.splits)

lemma costs_read_cases:
  assumes "c \<in> set (costs_read py trs)"
  shows "(\<exists>t. c = S t) \<or> (\<exists>n. c = I n) \<or> (\<exists>x. c = F x) \<or> (\<exists>b. c = B b)"
proof -
  from assms obtain tr dt where c: "c = (case read_cell py dt (tr Cost) of NaN \<Rightarrow> S '''' | x \<Rightarrow> x)"
    by (auto simp add: costs_read_def read_rows_def)
  from read_cell_cases [of py dt "tr Cost"] show ?thesis
    unfolding c by auto
qed

lemma filled_cost: "fillna (coerce_dates py r) Cost = (case r Cost of NaN \<Rightarrow> S '''' | x \<Rightarrow> x)"
  by (simp add: fillna_def coerce_dates_def cost_not_date)

lemma costs_before_astype:
  "map (\<lambda>r. r Cost) (map (\<lambda>r. fillna (coerce_dates py r)) (read_rows py trs)) = costs_read py trs"
  by (simp add: costs_read_def filled_cost comp_def)

lemma to_float_read:
  assumes "c \<in> set (costs_read py trs)"
  shows "to_float py c \<noteq> None \<longleftrightarrow> (\<forall>s. c = S s \<longrightarrow> float_of_str py s \<noteq> None)"
  using costs_read_cases [OF assms] by (auto simp add: to_float_def)

lemma to_float_is_float:
  assumes "c \<in> set (costs_read py trs)" and "to_float py c = Some v"
  shows "\<exists>x. v = F x"
  using costs_read_cases [OF assms(1)] assms(2) by (auto simp add: to_float_def)

lemma astype_cost_condition:
  "list_all (\<lambda>r. to_float py (r Cost) \<noteq> None) (map (\<lambda>r. fillna (coerce_dates py r)) (read_rows py trs))
   \<longleftrightarrow> (\<forall>s. S s \<in> set (costs_read py trs) \<longrightarrow> float_of_str py s \<noteq> None)"
proof -
  let ?rows = "map (\<lambda>r. fillna (coerce_dates py r)) (read_rows py trs)"
  have "list_all (\<lambda>r. to_float py (r Cost) \<noteq> None) ?rows
             \<longleftrightarrow> (\<forall>c\<in>set (costs_read py trs). to_float py c \<noteq> None)"
    unfolding costs_before_astype [symmetric] by (simp add: list_all_iff)
  also have "\<dots> \<longleftrightarrow> (\<forall>s. S s \<in> set (costs_read py trs) \<longrightarrow> float_of_str py s \<noteq> None)"
    using to_float_read [of _ py trs] by (auto simp add: to_float_def)
  finally show ?thesis .
qed

lemma loaded_costs_converted:
  assumes "\<forall>s. S s \<in> set (costs_read py trs) \<longrightarrow> float_of_str py s \<noteq> None"
  shows "map (\<lambda>r. r Cost) (loaded py trs)
         = map (\<lambda>c. case to_float py c of Some v \<Rightarrow> v | None \<Rightarrow> c) (costs_read py trs)"
proof -
  let ?rows = "map (\<lambda>r. fillna (coerce_dates py r)) (read_rows py trs)"
  from assms astype_cost_condition [of py trs]
  have "list_all (\<lambda>r. to_float py (r Cost) \<noteq> None) ?rows"
    by blast
  then have "astype_cost py ?rows
        = map (\<lambda>r. r(Cost := (case to_float py (r Cost) of Some v \<Rightarrow> v | None \<Rightarrow> r Cost))) ?rows"
    by (simp add: astype_cost_def)
  then have "map (\<lambda>r. r Cost) (loaded py trs)
        = map (\<lambda>c. case to_float py c of Some v \<Rightarrow> v | None \<Rightarrow> c) (map (\<lambda>r. r Cost) ?rows)"
    unfolding loaded_def by (simp add: comp_def)
  then show ?thesis by (simp only: costs_before_astype)
qed

lemma loaded_costs_kept:
  assumes "\<not> (\<forall>s. S s \<in> set (costs_read py trs) \<longrightarrow> float_of_str py s \<noteq> None)"
  shows "map (\<lambda>r. r Cost) (loaded py trs) = costs_read py trs"
proof -
  let ?rows = "map (\<lambda>r. fillna (coerce_dates py r)) (read_rows py trs)"
  from assms astype_cost_condition [of py trs]
  have "\<not> list_all (\<lambda>r. to_float py (r Cost) \<noteq> None) ?rows"
    by blast
  then have "astype_cost py ?rows = ?rows"
    by (simp add: astype_cost_def)
  then have "map (\<lambda>r. r Cost) (loaded py trs) = map (\<lambda>r. r Cost) ?rows"
    unfolding loaded_def by simp
  then show ?thesis by (simp only: costs_before_astype)
qed

lemma load_cost_column:
  assumes "cache w = None" and "assets_file w = Table trs"
  shows "log (snd (load_assets py w)) = log w"
    and "(\<forall>s. S s \<in> set (costs_read py trs) \<longrightarrow> float_of_str py s \<noteq> None) \<Longrightarrow>
           list_all (\<lambda>c. \<exists>x. c = F x) (column Cost (fst (load_assets py w)))"
    and "\<not> (\<forall>s. S s \<in> set (costs_read py trs) \<longrightarrow> float_of_str py s \<noteq> None) \<Longrightarrow>
           column Cost (fst (load_assets py w)) = costs_read py trs"
proof -
  note ld = load_assets_table [OF assms, of py]
  have col: "column Cost (fst (load_assets py w)) = map (\<lambda>r. r Cost) (loaded py trs)"
    by (simp add: ld column_def)
  show "log (snd (load_assets py w)) = log w" by (simp add: ld)
  show "list_all (\<lambda>c. \<exists>x. c = F x) (column Cost (fst (load_assets py w)))"
    if a: "\<forall>s. S s \<in> set (costs_read py trs) \<longrightarrow> float_of_str py s \<noteq> None"
  proof -
    have "\<exists>x. (case to_float py c of Some v \<Rightarrow> v | None \<Rightarrow> c) = F x"
      if c: "c \<in> set (costs_read py trs)" for c
    proof -
      from to_float_read [OF c] a c have "to_float py c \<noteq> None" by blast
      then obtain v where v: "to_float py c = Some v" by blast
      from to_float_is_float [OF c v] v show ?thesis by simp
    qed
    then show ?thesis
      unfolding col loaded_costs_converted [OF a] by (simp add: list_all_iff)
  qed
  show "column Cost (fst (load_assets py w)) = costs_read py trs"
    if b: "\<not> (\<forall>s. S s \<in> set (costs_read py trs) \<longrightarrow> float_of_str py s \<noteq> None)"
    unfolding col by (rule loaded_costs_kept [OF b])
qed

lemma ex_cost_facts:
  "ref_parse_int ''1500.0'' = None" "ref_parse_float ''abc'' = None"
  "parse_bool ''abc'' = None" "parse_bool ''1500.0'' = None"
  "\<not> is_na ''abc''" "\<not> is_na ''1500.0''" "\<not> is_na ''20''"
  "ref_parse_float ''1500.0'' = Some 1500" "ref_parse_float ''20'' = Some 20"
  by (simp_all add: ref_parse_int_def ref_parse_float_def ref_parse_ufloat_def ref_parse_nat_def
        is_digit_def digits_value_def parse_bool_def is_na_def na_values_def Let_def)

lemma ref_py_parsers:
  "parse_int ref_py = ref_parse_int" "parse_float ref_py = ref_parse_float"
  "float_of_str ref_py = ref_parse_float"
  by (simp_all add: ref_py_def)

lemma ex_costs_read:
  "costs_read ref_py [ex_text_row, ex_text_row(Asset_ID := ''LAP002'', Cost := ''abc'')]
     = [S ''1500.0'', S ''abc'']"
  by (simp add: costs_read_def read_rows_def read_cell_def infer_dtype_def Let_def ex_text_row_def
        ex_cost_facts ref_py_parsers)

lemma ex_costs_ok_read:
  "costs_read ref_py [ex_text_row, ex_text_row(Asset_ID := ''LAP002'', Cost := ''20'')]
     = [F 1500, F 20]"
  by (simp add: costs_read_def read_rows_def read_cell_def infer_dtype_def Let_def ex_text_row_def
        ex_cost_facts ref_py_parsers)

lemma ex_cost_world_facts:
  "cache ex_cost_world = None"
  "assets_file ex_cost_world = Table [ex_text_row, ex_text_row(Asset_ID := ''LAP002'', Cost := ''abc'')]"
  "log ex_cost_world = []"
  "cache ex_cost_ok_world = None"
  "assets_file ex_cost_ok_world = Table [ex_text_row, ex_text_row(Asset_ID := ''LAP002'', Cost := ''20'')]"
  by (simp_all add: ex_cost_world_def ex_cost_ok_world_def ex_world_def)

lemma ex_cost_not_all:
  "\<not> (\<forall>s. S s \<in> set (costs_read ref_py [ex_text_row, ex_text_row(Asset_ID := ''LAP002'', Cost := ''abc'')])
          \<longrightarrow> float_of_str ref_py s \<noteq> None)"
  by (simp add: ex_costs_read ref_py_parsers ex_cost_facts)

lemma ex_cost_ok_all:
  "\<forall>s. S s \<in> set (costs_read ref_py [ex_text_row, ex_text_row(Asset_ID := ''LAP002'', Cost := ''20'')])
          \<longrightarrow> float_of_str ref_py s \<noteq> None"
  by (simp add: ex_costs_ok_read)

text \<open>
  C10, as stated, fails.  In a file whose second record has the cost abc, the loaded cost
  of that record is the text abc, not 0 and not a missing-value marker; the cost 1500.0
  of the first record stays text as well; and nothing is written to the log.
\<close>

theorem unparseable_cost_stays_text_unlogged:
  "column Cost (fst (load_assets ref_py ex_cost_world)) = [S ''1500.0'', S ''abc'']
   \<and> log (snd (load_assets ref_py ex_cost_world)) = []"
  using load_cost_column(3) [OF ex_cost_world_facts(1) ex_cost_world_facts(2) ex_cost_not_all]
        load_cost_column(1) [OF ex_cost_world_facts(1) ex_cost_world_facts(2), of ref_py]
  by (simp add: ex_costs_read ex_cost_world_facts(3))

text \<open>
  C10, amended.  \<open>load_assets\<close> converts the Cost column to float64 as a whole and ignores
  a failure: when every cost that is text (a missing cost has become the empty text) is
  accepted by \<open>float\<close>, every loaded cost is a float; when some cost is not accepted, no
  cost is converted and every value stays as it was read; in either case nothing is
  logged.
\<close>

theorem load_converts_cost_column_all_or_nothing:
  assumes "cache w = None" and "assets_file w = Table trs"
  shows "log (snd (load_assets py w)) = log w
     \<and> ((\<forall>s. S s \<in> set (costs_read py trs) \<longrightarrow> float_of_str py s \<noteq> None) \<longrightarrow>
          list_all (\<lambda>c. \<exists>x. c = F x) (column Cost (fst (load_assets py w))))
     \<and> (\<not> (\<forall>s. S s \<in> set (costs_read py trs) \<longrightarrow> float_of_str py s \<noteq> None) \<longrightarrow>
          column Cost (fst (load_assets py w)) = costs_read py trs)"
  using load_cost_column [OF assms, of py] by blast

theorem load_converts_cost_column_all_or_nothing_witness:
  "cache ex_cost_world = None
   \<and> assets_file ex_cost_world = Table [ex_text_row, ex_text_row(Asset_ID := ''LAP002'', Cost := ''abc'')]
   \<and> log (snd (load_assets ref_py ex_cost_world)) = log ex_cost_world
   \<and> column Cost (fst (load_assets ref_py ex_cost_world))
       = costs_read ref_py [ex_text_row, ex_text_row(Asset_ID := ''LAP002'', Cost := ''abc'')]
   \<and> costs_read ref_py [ex_text_row, ex_text_row(Asset_ID := ''LAP002'', Cost := ''abc'')]
       = [S ''1500.0'', S ''abc'']
   \<and> cache ex_cost_ok_world = None
   \<and> assets_file ex_cost_ok_world = Table [ex_text_row, ex_text_row(Asset_ID := ''LAP002'', Cost := ''20'')]
   \<and> list_all (\<lambda>c. \<exists>x. c = F x) (column Cost (fst (load_assets ref_py ex_cost_ok_world)))"
proof -
  note a = load_converts_cost_column_all_or_nothing [OF ex_cost_world_facts(1) ex_cost_world_facts(2), of ref_py]
  note b = load_converts_cost_column_all_or_nothing [OF ex_cost_world_facts(4) ex_cost_world_facts(5), of ref_py]
  note a1 = a [THEN conjunct1]
  note a3 = a [THEN conjunct2, THEN conjunct2, THEN mp, OF ex_cost_not_all]
  note b2 = b [THEN conjunct2, THEN conjunct1, THEN mp, OF ex_cost_ok_all]
  show ?thesis
    by (intro conjI) (rule ex_cost_world_facts(1), rule ex_cost_world_facts(2), rule a1, rule a3,
        rule ex_costs_read, rule ex_cost_world_facts(4), rule ex_cost_world_facts(5), rule b2)
qed

subsection \<open>Saving is a write in place\<close>










end
